theory Spec2Isabelle
  imports Main
begin

section \<open>Values and the shared array heap\<close>

text \<open>
  JSON values stand for everything the plugin copies without looking inside:
  operation objects, schemas, the fields of \<open>info\<close>.
\<close>

datatype json =
    JNull
  | JBool bool
  | JNum int
  | JStr string
  | JArr "json list"
  | JObj "(string \<times> json) list"

text \<open>
  An entry of \<open>exclude.paths\<close> has the TypeScript type \<open>string | RegExp\<close>. Of a
  \<open>RegExp\<close> the plugin reads \<open>source\<close> and \<open>flags\<close> only.
\<close>

datatype pathValue =
    PathString string
  | PathRegExp (source: string) (flags: string)

text \<open>
  JavaScript arrays are objects with identity: the spread \<open>{ ...exclude }\<close> copies the
  reference, not the elements. Arrays therefore live in a heap indexed by address; the
  heap is shared between the plugin and the hosting application. \<open>string[]\<close> and
  \<open>(string | RegExp)[]\<close> arrays are kept in two typed heaps with one allocation
  counter.
\<close>

type_synonym addr = nat

datatype pathsField =
    Single pathValue
  | Multiple addr

text \<open>
  \<open>ElysiaOpenAPIConfig['exclude']\<close>: the three optional fields the plugin reads and
  writes. The record itself is modelled as a value: every record held in
  \<open>currentExclude\<close> is created by the plugin (\<open>{ ...x }\<close> or \<open>{}\<close>) and only copies
  of it are handed out.
\<close>

record exclude =
  paths :: "pathsField option"
  tags :: "addr option"
  methods :: "addr option"

section \<open>Documents\<close>

datatype tagObject = TagObject (name: string) (description: "string option")

record componentsObject =
  schemas :: "(string \<rightharpoonup> json) option"
  otherComponents :: "string \<rightharpoonup> json"

text \<open>
  The static \<open>documentation\<close> option. \<open>doc_other\<close> holds its remaining top-level
  keys (\<open>servers\<close>, \<open>security\<close>, possibly \<open>openapi\<close>).
\<close>

record documentation =
  doc_info :: "(string \<rightharpoonup> json) option"
  doc_tags :: "tagObject list option"
  doc_paths :: "(string \<rightharpoonup> (string \<rightharpoonup> json)) option"
  doc_components :: "componentsObject option"
  doc_other :: "string \<rightharpoonup> json"

text \<open>The object literal built by \<open>toFullSchema\<close>.\<close>

record document =
  out_other :: "string \<rightharpoonup> json"
  out_tags :: "tagObject list option"
  out_info :: "string \<rightharpoonup> json"
  out_paths :: "string \<rightharpoonup> (string \<rightharpoonup> json)"
  out_components :: componentsObject

text \<open>What \<open>toOpenAPISchema\<close> returns: \<open>{ paths, components: { schemas } }\<close>.\<close>

record converted =
  conv_paths :: "string \<rightharpoonup> (string \<rightharpoonup> json)"
  conv_schemas :: "string \<rightharpoonup> json"

section \<open>Plugin state\<close>

text \<open>
  The closure variables of \<open>openapi(...)\<close>: \<open>totalRoutes\<close>, \<open>cachedSchema\<close>,
  \<open>currentExclude\<close>; and the array heap. Addresses below \<open>nextAddr\<close> are in use; an
  array literal or a call of \<open>filter\<close> creates its array at \<open>nextAddr\<close>.
\<close>

record state =
  totalRoutes :: nat
  cachedSchema :: "document option"
  currentExclude :: "exclude option"
  stringArrays :: "addr \<Rightarrow> string list"
  pathArrays :: "addr \<Rightarrow> pathValue list"
  nextAddr :: addr

definition emptyExclude :: exclude where
  "emptyExclude = \<lparr>paths = None, tags = None, methods = None\<rparr>"

text \<open>\<open>let currentExclude = exclude ? { ...exclude } : undefined\<close>, counters at their initial values.\<close>

definition initialState ::
  "exclude option \<Rightarrow> (addr \<Rightarrow> string list) \<Rightarrow> (addr \<Rightarrow> pathValue list) \<Rightarrow> addr \<Rightarrow> state" where
  "initialState ex sa pa n =
     \<lparr>totalRoutes = 0, cachedSchema = None, currentExclude = ex,
      stringArrays = sa, pathArrays = pa, nextAddr = n\<rparr>"

definition invalidateCache :: "state \<Rightarrow> state" where
  "invalidateCache s = s\<lparr>cachedSchema := None, totalRoutes := 0\<rparr>"

section \<open>Exclusion store\<close>

text \<open>JavaScript truthiness of a \<open>string | RegExp\<close>: only the empty string is falsy.\<close>

fun truthy :: "pathValue \<Rightarrow> bool" where
  "truthy (PathString s) = (s \<noteq> [])"
| "truthy (PathRegExp src fl) = True"

text \<open>
  The expression \<open>Array.isArray(paths) ? paths : paths ? [paths] : []\<close> of
  \<open>addExcludedPaths\<close>.
\<close>

definition currentPaths :: "state \<Rightarrow> exclude \<Rightarrow> pathValue list" where
  "currentPaths s ex =
     (case paths ex of
        Some (Multiple a) \<Rightarrow> pathArrays s a
      | Some (Single v) \<Rightarrow> (if truthy v then [v] else [])
      | None \<Rightarrow> [])"

text \<open>\<open>currentExclude.tags ?? []\<close>.\<close>

definition stringsOr :: "state \<Rightarrow> addr option \<Rightarrow> string list" where
  "stringsOr s f = (case f of Some a \<Rightarrow> stringArrays s a | None \<Rightarrow> [])"

definition setExclusion :: "exclude option \<Rightarrow> state \<Rightarrow> state" where
  "setExclusion newExclude s = invalidateCache (s\<lparr>currentExclude := newExclude\<rparr>)"

text \<open>\<open>if (!currentExclude) currentExclude = {}\<close>.\<close>

definition ensureExclude :: "state \<Rightarrow> exclude" where
  "ensureExclude s = (case currentExclude s of None \<Rightarrow> emptyExclude | Some ex \<Rightarrow> ex)"

definition addExcludedPaths :: "pathValue list \<Rightarrow> state \<Rightarrow> state" where
  "addExcludedPaths ps s =
     (let ex = ensureExclude s;
          a = nextAddr s
      in invalidateCache
           (s\<lparr>pathArrays := (pathArrays s)(a := currentPaths s ex @ ps),
              nextAddr := Suc a,
              currentExclude := Some (ex\<lparr>paths := Some (Multiple a)\<rparr>)\<rparr>))"

text \<open>
  The comparison inside \<open>removeExcludedPaths\<close>: two \<open>RegExp\<close> by \<open>source\<close> and
  \<open>flags\<close>, anything else by \<open>===\<close> (two strings by content, a string and a
  \<open>RegExp\<close> never).
\<close>

fun samePath :: "pathValue \<Rightarrow> pathValue \<Rightarrow> bool" where
  "samePath (PathRegExp s1 f1) (PathRegExp s2 f2) = (s1 = s2 \<and> f1 = f2)"
| "samePath (PathString a) (PathString b) = (a = b)"
| "samePath (PathString a) (PathRegExp s2 f2) = False"
| "samePath (PathRegExp s1 f1) (PathString b) = False"

text \<open>\<open>!currentExclude?.paths\<close> is false for an array, a \<open>RegExp\<close> and a non-empty string.\<close>

fun pathsPresent :: "pathsField option \<Rightarrow> bool" where
  "pathsPresent None = False"
| "pathsPresent (Some (Single v)) = truthy v"
| "pathsPresent (Some (Multiple a)) = True"

definition removeExcludedPaths :: "pathValue list \<Rightarrow> state \<Rightarrow> state" where
  "removeExcludedPaths ps s =
     (case currentExclude s of
        None \<Rightarrow> s
      | Some ex \<Rightarrow>
          if \<not> pathsPresent (paths ex) then s
          else
            let cur = (case paths ex of
                         Some (Multiple a) \<Rightarrow> pathArrays s a
                       | Some (Single v) \<Rightarrow> [v]
                       | None \<Rightarrow> []);
                a = nextAddr s
            in invalidateCache
                 (s\<lparr>pathArrays := (pathArrays s)
                       (a := filter (\<lambda>p. \<not> list_ex (\<lambda>path. samePath p path) ps) cur),
                    nextAddr := Suc a,
                    currentExclude := Some (ex\<lparr>paths := Some (Multiple a)\<rparr>)\<rparr>))"

definition addExcludedTags :: "string list \<Rightarrow> state \<Rightarrow> state" where
  "addExcludedTags ts s =
     (let ex = ensureExclude s;
          a = nextAddr s
      in invalidateCache
           (s\<lparr>stringArrays := (stringArrays s)(a := stringsOr s (tags ex) @ ts),
              nextAddr := Suc a,
              currentExclude := Some (ex\<lparr>tags := Some a\<rparr>)\<rparr>))"

definition removeExcludedTags :: "string list \<Rightarrow> state \<Rightarrow> state" where
  "removeExcludedTags ts s =
     (case currentExclude s of
        None \<Rightarrow> s
      | Some ex \<Rightarrow>
          (case tags ex of
             None \<Rightarrow> s
           | Some old \<Rightarrow>
               let a = nextAddr s
               in invalidateCache
                    (s\<lparr>stringArrays := (stringArrays s)
                          (a := filter (\<lambda>t. t \<notin> set ts) (stringArrays s old)),
                       nextAddr := Suc a,
                       currentExclude := Some (ex\<lparr>tags := Some a\<rparr>)\<rparr>)))"

definition addExcludedMethods :: "string list \<Rightarrow> state \<Rightarrow> state" where
  "addExcludedMethods ms s =
     (let ex = ensureExclude s;
          a = nextAddr s
      in invalidateCache
           (s\<lparr>stringArrays := (stringArrays s)(a := stringsOr s (methods ex) @ ms),
              nextAddr := Suc a,
              currentExclude := Some (ex\<lparr>methods := Some a\<rparr>)\<rparr>))"

definition removeExcludedMethods :: "string list \<Rightarrow> state \<Rightarrow> state" where
  "removeExcludedMethods ms s =
     (case currentExclude s of
        None \<Rightarrow> s
      | Some ex \<Rightarrow>
          (case methods ex of
             None \<Rightarrow> s
           | Some old \<Rightarrow>
               let a = nextAddr s
               in invalidateCache
                    (s\<lparr>stringArrays := (stringArrays s)
                          (a := filter (\<lambda>m. m \<notin> set ms) (stringArrays s old)),
                       nextAddr := Suc a,
                       currentExclude := Some (ex\<lparr>methods := Some a\<rparr>)\<rparr>)))"

text \<open>\<open>getExclusion\<close> returns \<open>{ ...currentExclude }\<close>: the same field values, array references included.\<close>

definition getExclusion :: "state \<Rightarrow> exclude option" where
  "getExclusion s = currentExclude s"

text \<open>
  What the hosting application can do to an array it holds a reference to
  (\<open>Array.prototype.push\<close>); no function of the plugin is involved.
\<close>

definition hostPushString :: "addr \<Rightarrow> string \<Rightarrow> state \<Rightarrow> state" where
  "hostPushString a x s = s\<lparr>stringArrays := (stringArrays s)(a := stringArrays s a @ [x])\<rparr>"

definition hostPushPath :: "addr \<Rightarrow> pathValue \<Rightarrow> state \<Rightarrow> state" where
  "hostPushPath a x s = s\<lparr>pathArrays := (pathArrays s)(a := pathArrays s a @ [x])\<rparr>"

section \<open>Document assembler\<close>

text \<open>The spread \<open>...x\<close> of an object that may be \<open>undefined\<close>.\<close>

definition spread :: "('k \<rightharpoonup> 'v) option \<Rightarrow> ('k \<rightharpoonup> 'v)" where
  "spread m = (case m of None \<Rightarrow> Map.empty | Some x \<Rightarrow> x)"

definition defaultInfo :: "string \<rightharpoonup> json" where
  "defaultInfo =
     [''title'' \<mapsto> JStr ''Elysia Documentation'',
      ''description'' \<mapsto> JStr ''Development documentation'',
      ''version'' \<mapsto> JStr ''0.0.0'']"

text \<open>\<open>currentExclude?.tags\<close>.\<close>

definition excludedTagsRef :: "exclude option \<Rightarrow> addr option" where
  "excludedTagsRef ex = (case ex of None \<Rightarrow> None | Some e \<Rightarrow> tags e)"

text \<open>
  \<open>toFullSchema\<close> builds the document from the converter's output and the static
  \<open>documentation\<close>, and stores it in \<open>cachedSchema\<close>. In an object literal a later key
  overrides an earlier one, which is \<open>++\<close> on maps.
\<close>

definition toFullSchema :: "documentation \<Rightarrow> converted \<Rightarrow> state \<Rightarrow> document \<times> state" where
  "toFullSchema doc out s =
     (let d = \<lparr>out_other = [''openapi'' \<mapsto> JStr ''3.0.3''] ++ doc_other doc,
               out_tags =
                 (case excludedTagsRef (currentExclude s) of
                    None \<Rightarrow> doc_tags doc
                  | Some a \<Rightarrow>
                      map_option (filter (\<lambda>tag. name tag \<notin> set (stringArrays s a)))
                        (doc_tags doc)),
               out_info = defaultInfo ++ spread (doc_info doc),
               out_paths = conv_paths out ++ spread (doc_paths doc),
               out_components =
                 \<lparr>schemas =
                    Some (conv_schemas out ++
                          spread (case doc_components doc of
                                    None \<Rightarrow> None
                                  | Some c \<Rightarrow> schemas c)),
                  otherComponents =
                    (case doc_components doc of
                       None \<Rightarrow> Map.empty
                     | Some c \<Rightarrow> otherComponents c)\<rparr>\<rparr>
      in (d, s\<lparr>cachedSchema := Some d\<rparr>))"

section \<open>Routes and the spec endpoint\<close>

text \<open>A route of the serving framework, as far as the plugin and its converter read it.\<close>

record route =
  "method" :: string
  path :: string
  hide :: bool
  routeTags :: "string list"
  detail :: json

datatype error = BuildError string

text \<open>
  \<open>toOpenAPISchema(app, currentExclude, references, mapJsonSchema)\<close> is imported from
  \<open>./openapi\<close>; the spec endpoint takes it as a parameter. It reads the routes, the
  policy and the arrays the policy refers to, and it may throw.
\<close>

type_synonym converter =
  "(addr \<Rightarrow> string list) \<Rightarrow> (addr \<Rightarrow> pathValue list) \<Rightarrow> route list \<Rightarrow> exclude option
     \<Rightarrow> error + converted"

text \<open>
  Lines 304 to 308 of \<open>openAPISchema\<close>: the counter is assigned first, then the converter
  runs (and may throw), then \<open>toFullSchema\<close> stores the document.
\<close>

definition rebuildSchema ::
  "converter \<Rightarrow> documentation \<Rightarrow> route list \<Rightarrow> state \<Rightarrow> (error + document) \<times> state" where
  "rebuildSchema conv doc routes s =
     (let s1 = s\<lparr>totalRoutes := length routes\<rparr>
      in case conv (stringArrays s1) (pathArrays s1) routes (currentExclude s1) of
           Inl e \<Rightarrow> (Inl e, s1)
         | Inr out \<Rightarrow> (case toFullSchema doc out s1 of (d, s2) \<Rightarrow> (Inr d, s2)))"

text \<open>
  \<open>if (totalRoutes === app.routes.length && cachedSchema) return cachedSchema\<close>, and
  the rebuild otherwise. \<open>routes\<close> is the live route collection at the time of the
  read. (The handler of the documentation page, which with \<open>embedSpec\<close> also reads the
  cache, is not part of this model.)
\<close>

definition openAPISchema ::
  "converter \<Rightarrow> documentation \<Rightarrow> route list \<Rightarrow> state \<Rightarrow> (error + document) \<times> state" where
  "openAPISchema conv doc routes s =
     (case (if totalRoutes s = length routes then cachedSchema s else None) of
        Some d \<Rightarrow> (Inr d, s)
      | None \<Rightarrow> rebuildSchema conv doc routes s)"

section \<open>Route filter and schema converter\<close>

text \<open>
  Modelled from the spec: the collaborators of the Route Filter and the Schema Converter
  of \<open>./openapi\<close> (not among the sources), which the specification treats as black
  boxes and which are therefore parameters here: the reserved prefixes of the
  documentation page and the spec endpoint, the test of a pattern-matcher (by source and
  flags) against a path, the translation of a route path into a path-item key, and the
  description of one route as an operation object together with the named schemas it
  introduces (which may fail).
\<close>

record external =
  reservedPrefixes :: "string list"
  regExpTest :: "string \<Rightarrow> string \<Rightarrow> string \<Rightarrow> bool"
  pathItemKey :: "string \<Rightarrow> string"
  describeOperation :: "route \<Rightarrow> error + json \<times> (string \<times> json) list"

text \<open>
  Case-insensitive comparison of method names goes through lower case; method names are
  ASCII, so only the letters A to Z are mapped.
\<close>

definition lowerChar :: "char \<Rightarrow> char" where
  "lowerChar c =
     (case map_of (zip ''ABCDEFGHIJKLMNOPQRSTUVWXYZ'' ''abcdefghijklmnopqrstuvwxyz'') c of
        Some l \<Rightarrow> l
      | None \<Rightarrow> c)"

definition toLowerCase :: "string \<Rightarrow> string" where
  "toLowerCase s = map lowerChar s"

text \<open>Whether a path falls under a prefix.\<close>

fun isPrefix :: "string \<Rightarrow> string \<Rightarrow> bool" where
  "isPrefix [] ys = True"
| "isPrefix (x # xs) [] = False"
| "isPrefix (x # xs) (y # ys) = (x = y \<and> isPrefix xs ys)"

text \<open>
  Modelled from the spec: the policy's \<open>paths\<close> field as the Route Filter of
  \<open>./openapi\<close> (not among the sources) reads it, "a single value or ordered sequence of
  values".
\<close>

definition excludedPaths :: "(addr \<Rightarrow> pathValue list) \<Rightarrow> exclude option \<Rightarrow> pathValue list" where
  "excludedPaths pa ex =
     (case ex of
        None \<Rightarrow> []
      | Some e \<Rightarrow>
          (case paths e of
             None \<Rightarrow> []
           | Some (Single v) \<Rightarrow> [v]
           | Some (Multiple a) \<Rightarrow> pa a))"

text \<open>
  Modelled from the spec: the policy's \<open>tags\<close> field as the Route Filter of
  \<open>./openapi\<close> reads it; "absence of a field means no filtering on that dimension".
\<close>

definition excludedTags :: "(addr \<Rightarrow> string list) \<Rightarrow> exclude option \<Rightarrow> string list" where
  "excludedTags sa ex =
     (case ex of
        None \<Rightarrow> []
      | Some e \<Rightarrow> (case tags e of None \<Rightarrow> [] | Some a \<Rightarrow> sa a))"

text \<open>
  Modelled from the spec: the policy's \<open>methods\<close> field as the Route Filter of
  \<open>./openapi\<close> reads it.
\<close>

definition excludedMethods :: "(addr \<Rightarrow> string list) \<Rightarrow> exclude option \<Rightarrow> string list" where
  "excludedMethods sa ex =
     (case ex of
        None \<Rightarrow> []
      | Some e \<Rightarrow> (case methods e of None \<Rightarrow> [] | Some a \<Rightarrow> sa a))"

text \<open>
  Modelled from the spec: when one entry of \<open>paths\<close> matches a route path, in the Route
  Filter of \<open>./openapi\<close>: a literal path string by equality, a pattern-matcher by its
  test.
\<close>

fun pathMatches :: "external \<Rightarrow> pathValue \<Rightarrow> string \<Rightarrow> bool" where
  "pathMatches ext (PathString lit) p = (lit = p)"
| "pathMatches ext (PathRegExp src fl) p = regExpTest ext src fl p"

text \<open>
  Modelled from the spec: the Route Filter of \<open>./openapi\<close> (section 4.2), true when the
  route should appear in the document. It "evaluates, in order, reserved-prefix
  self-exclusion, then the route's own hide flag, then path match, then tag match
  (any-of), then method match (case-insensitive); short-circuits on first true
  (excluded). No match on any dimension: included."
\<close>

definition routeFilter ::
  "external \<Rightarrow> (addr \<Rightarrow> string list) \<Rightarrow> (addr \<Rightarrow> pathValue list) \<Rightarrow> exclude option
     \<Rightarrow> route \<Rightarrow> bool" where
  "routeFilter ext sa pa ex r =
     (if list_ex (\<lambda>pre. isPrefix pre (path r)) (reservedPrefixes ext) then False
      else if hide r then False
      else if list_ex (\<lambda>v. pathMatches ext v (path r)) (excludedPaths pa ex) then False
      else if list_ex (\<lambda>t. t \<in> set (excludedTags sa ex)) (routeTags r) then False
      else if toLowerCase (method r) \<in> set (map toLowerCase (excludedMethods sa ex))
        then False
      else True)"

text \<open>
  Modelled from the spec: one step of the Schema Converter of \<open>./openapi\<close> (section
  4.3). "Multiple routes sharing one path must merge into one path-item object keyed by
  method, later registrations overwriting same-method collisions"; named schemas are
  collected into the components map by name.
\<close>

definition addOperation ::
  "string \<Rightarrow> string \<Rightarrow> json \<Rightarrow> (string \<times> json) list \<Rightarrow> converted \<Rightarrow> converted" where
  "addOperation key m operation named acc =
     acc\<lparr>conv_paths := (conv_paths acc)(key \<mapsto> (spread (conv_paths acc key))(m \<mapsto> operation)),
         conv_schemas := conv_schemas acc ++ map_of named\<rparr>"

text \<open>
  Modelled from the spec: the loop of the Schema Converter of \<open>./openapi\<close> over the
  routes in registration order. A route the filter rejects is skipped; a failing
  description of an included route fails the build.
\<close>

fun convertRoutes ::
  "external \<Rightarrow> (route \<Rightarrow> bool) \<Rightarrow> route list \<Rightarrow> converted \<Rightarrow> error + converted" where
  "convertRoutes ext keep [] acc = Inr acc"
| "convertRoutes ext keep (r # rs) acc =
     (if \<not> keep r then convertRoutes ext keep rs acc
      else case describeOperation ext r of
             Inl e \<Rightarrow> Inl e
           | Inr (operation, named) \<Rightarrow>
               convertRoutes ext keep rs
                 (addOperation (pathItemKey ext (path r)) (method r) operation named acc))"

text \<open>
  Modelled from the spec: \<open>toOpenAPISchema\<close> of \<open>./openapi\<close>, the Schema Converter
  applied to the routes the Route Filter accepts.
\<close>

definition toOpenAPISchema :: "external \<Rightarrow> converter" where
  "toOpenAPISchema ext sa pa routes ex =
     convertRoutes ext (routeFilter ext sa pa ex) routes
       \<lparr>conv_paths = Map.empty, conv_schemas = Map.empty\<rparr>"

text \<open>
  A route is present in a document when the path item under its key has an operation
  under its method.
\<close>

definition present :: "external \<Rightarrow> document \<Rightarrow> route \<Rightarrow> bool" where
  "present ext d r =
     (case out_paths d (pathItemKey ext (path r)) of
        None \<Rightarrow> False
      | Some item \<Rightarrow> item (method r) \<noteq> None)"

section \<open>Reading the policy\<close>

text \<open>
  \<open>currentExclude?.methods\<close> and \<open>currentExclude?.paths\<close>, as the removal operations
  test them.
\<close>

definition excludedMethodsRef :: "exclude option \<Rightarrow> addr option" where
  "excludedMethodsRef ex = (case ex of None \<Rightarrow> None | Some e \<Rightarrow> methods e)"

definition excludedPathsField :: "exclude option \<Rightarrow> pathsField option" where
  "excludedPathsField ex = (case ex of None \<Rightarrow> None | Some e \<Rightarrow> paths e)"

text \<open>
  The three lists the store currently holds, read the way the store's own operations read
  them: \<open>currentPaths\<close> for the paths, \<open>?? []\<close> for tags and methods.
\<close>

abbreviation pathList :: "state \<Rightarrow> pathValue list" where
  "pathList s \<equiv> currentPaths s (ensureExclude s)"

abbreviation tagList :: "state \<Rightarrow> string list" where
  "tagList s \<equiv> stringsOr s (excludedTagsRef (currentExclude s))"

abbreviation methodList :: "state \<Rightarrow> string list" where
  "methodList s \<equiv> stringsOr s (excludedMethodsRef (currentExclude s))"

text \<open>
  The operation a path mapping holds under a path-item key and a method, if any.
\<close>

definition operationAt ::
  "(string \<rightharpoonup> (string \<rightharpoonup> json)) \<Rightarrow> string \<Rightarrow> string \<Rightarrow> json option" where
  "operationAt ps key m = (case ps key of None \<Rightarrow> None | Some item \<Rightarrow> item m)"

text \<open>
  Presence of a route in what a read of the spec endpoint returned; a failed read has no document.
\<close>

definition presentIn :: "external \<Rightarrow> error + document \<Rightarrow> route \<Rightarrow> bool" where
  "presentIn ext res r = (case res of Inl e \<Rightarrow> False | Inr d \<Rightarrow> present ext d r)"

section \<open>Example values\<close>

text \<open>
  The configuration of \<open>example/dynamic-exclusion.ts\<close>:
  \<open>exclude: { paths: ['/internal'], tags: ['admin'] }\<close>, the two arrays at addresses 0
  and 1.
\<close>

definition exampleState :: state where
  "exampleState =
     initialState (Some \<lparr>paths = Some (Multiple 0), tags = Some 1, methods = None\<rparr>)
       ((\<lambda>_. [])(1 := [''admin''])) ((\<lambda>_. [])(0 := [PathString ''/internal''])) 2"

definition exampleDocumentation :: documentation where
  "exampleDocumentation =
     \<lparr>doc_info = Some [''title'' \<mapsto> JStr ''Shop''],
      doc_tags = Some [TagObject ''admin'' None, TagObject ''users'' None],
      doc_paths = Some [''/a'' \<mapsto> [''get'' \<mapsto> JStr ''static'']],
      doc_components =
        Some \<lparr>schemas = Some [''S'' \<mapsto> JStr ''static''], otherComponents = Map.empty\<rparr>,
      doc_other = Map.empty\<rparr>"

definition exampleConverted :: converted where
  "exampleConverted =
     \<lparr>conv_paths = [''/a'' \<mapsto> [''post'' \<mapsto> JStr ''generated''],
                    ''/users'' \<mapsto> [''get'' \<mapsto> JStr ''generated'']],
      conv_schemas = [''S'' \<mapsto> JStr ''generated'', ''T'' \<mapsto> JStr ''generated'']\<rparr>"

text \<open>
  The document built from the example values, and a state that has it cached for five routes.
\<close>

definition exampleDocument :: document where
  "exampleDocument = fst (toFullSchema exampleDocumentation exampleConverted exampleState)"

definition exampleCached :: state where
  "exampleCached = exampleState\<lparr>totalRoutes := 5, cachedSchema := Some exampleDocument\<rparr>"

text \<open>
  \<open>openapi()\<close> without an \<open>exclude\<close> option, and \<open>exclude: { paths: v }\<close> with a single value.
\<close>

definition emptyState :: state where
  "emptyState = initialState None (\<lambda>_. []) (\<lambda>_. []) 0"

definition scalarState :: "pathValue \<Rightarrow> state" where
  "scalarState v =
     initialState (Some \<lparr>paths = Some (Single v), tags = None, methods = None\<rparr>)
       (\<lambda>_. []) (\<lambda>_. []) 0"

text \<open>
  \<open>exclude: { paths: [/^\/tmp/i, '/internal'] }\<close>.
\<close>

definition regExpState :: state where
  "regExpState =
     initialState (Some \<lparr>paths = Some (Multiple 0), tags = None, methods = None\<rparr>)
       (\<lambda>_. []) ((\<lambda>_. [])(0 := [PathRegExp ''^/tmp'' ''i'', PathString ''/internal''])) 1"

text \<open>
  The object a caller passes to \<open>setExclusion\<close>, holding the arrays at addresses 0 and 1.
\<close>

definition exampleExclude :: exclude where
  "exampleExclude = \<lparr>paths = Some (Multiple 0), tags = Some 1, methods = None\<rparr>"

text \<open>
  Collaborators for the examples: one reserved prefix, a pattern test that knows the
  single pattern \<open>^/tmp\<close>, path-item keys equal to the route paths, and a description of
  a route that never fails.
\<close>

definition exampleExternal :: external where
  "exampleExternal =
     \<lparr>reservedPrefixes = [''/openapi''],
      regExpTest = (\<lambda>src fl p. src = ''^/tmp'' \<and> isPrefix ''/tmp'' p),
      pathItemKey = (\<lambda>p. p),
      describeOperation = (\<lambda>r. Inr (JStr (path r), []))\<rparr>"

definition exampleRoute :: "string \<Rightarrow> string \<Rightarrow> string list \<Rightarrow> route" where
  "exampleRoute m p ts = \<lparr>method = m, path = p, hide = False, routeTags = ts, detail = JNull\<rparr>"


text \<open>
  The five routes of \<open>example/dynamic-exclusion.ts\<close>, and the same with a sixth route registered later.
\<close>

definition exampleRoutes :: "route list" where
  "exampleRoutes =
     [exampleRoute ''GET'' ''/'' [],
      exampleRoute ''GET'' ''/users'' [''users''],
      exampleRoute ''GET'' ''/admin'' [''admin''],
      exampleRoute ''GET'' ''/internal'' [],
      exampleRoute ''GET'' ''/health'' []]"

definition sixRoutes :: "route list" where
  "sixRoutes = exampleRoutes @ [exampleRoute ''POST'' ''/upload'' []]"

text \<open>
  A converter that throws, one that returns the example output, and \<open>documentation = {}\<close>.
\<close>

definition failingConverter :: converter where
  "failingConverter sa pa routes ex = Inl (BuildError ''unsupported schema'')"

definition fixedConverter :: converter where
  "fixedConverter sa pa routes ex = Inr exampleConverted"


section \<open>Exclusion store: what each operation writes\<close>

lemma samePath_eq: "samePath p q \<longleftrightarrow> p = q"
  by (cases p; cases q) auto

lemma truthy_iff: "truthy v \<longleftrightarrow> v \<noteq> PathString []"
  by (cases v) simp_all

lemma invalidateCache_fields [simp]:
  "cachedSchema (invalidateCache s) = None"
  "totalRoutes (invalidateCache s) = 0"
  "currentExclude (invalidateCache s) = currentExclude s"
  "stringArrays (invalidateCache s) = stringArrays s"
  "pathArrays (invalidateCache s) = pathArrays s"
  "nextAddr (invalidateCache s) = nextAddr s"
  by (simp_all add: invalidateCache_def)

lemma setExclusion_fields:
  "currentExclude (setExclusion ne s) = ne"
  "stringArrays (setExclusion ne s) = stringArrays s"
  "pathArrays (setExclusion ne s) = pathArrays s"
  "nextAddr (setExclusion ne s) = nextAddr s"
  "cachedSchema (setExclusion ne s) = None"
  "totalRoutes (setExclusion ne s) = 0"
  by (simp_all add: setExclusion_def)

lemma addExcludedPaths_fields:
  "currentExclude (addExcludedPaths ps s)
     = Some ((ensureExclude s)\<lparr>paths := Some (Multiple (nextAddr s))\<rparr>)"
  "pathArrays (addExcludedPaths ps s)
     = (pathArrays s)(nextAddr s := currentPaths s (ensureExclude s) @ ps)"
  "stringArrays (addExcludedPaths ps s) = stringArrays s"
  "nextAddr (addExcludedPaths ps s) = Suc (nextAddr s)"
  "cachedSchema (addExcludedPaths ps s) = None"
  "totalRoutes (addExcludedPaths ps s) = 0"
  by (simp_all add: addExcludedPaths_def Let_def)

lemma addExcludedTags_fields:
  "currentExclude (addExcludedTags ts s)
     = Some ((ensureExclude s)\<lparr>tags := Some (nextAddr s)\<rparr>)"
  "stringArrays (addExcludedTags ts s)
     = (stringArrays s)(nextAddr s := stringsOr s (tags (ensureExclude s)) @ ts)"
  "pathArrays (addExcludedTags ts s) = pathArrays s"
  "nextAddr (addExcludedTags ts s) = Suc (nextAddr s)"
  "cachedSchema (addExcludedTags ts s) = None"
  "totalRoutes (addExcludedTags ts s) = 0"
  by (simp_all add: addExcludedTags_def Let_def)

lemma addExcludedMethods_fields:
  "currentExclude (addExcludedMethods ms s)
     = Some ((ensureExclude s)\<lparr>methods := Some (nextAddr s)\<rparr>)"
  "stringArrays (addExcludedMethods ms s)
     = (stringArrays s)(nextAddr s := stringsOr s (methods (ensureExclude s)) @ ms)"
  "pathArrays (addExcludedMethods ms s) = pathArrays s"
  "nextAddr (addExcludedMethods ms s) = Suc (nextAddr s)"
  "cachedSchema (addExcludedMethods ms s) = None"
  "totalRoutes (addExcludedMethods ms s) = 0"
  by (simp_all add: addExcludedMethods_def Let_def)

lemma removeExcludedPaths_absent:
  "\<not> pathsPresent (excludedPathsField (currentExclude s)) \<Longrightarrow> removeExcludedPaths ps s = s"
  by (cases "currentExclude s") (simp_all add: removeExcludedPaths_def excludedPathsField_def)

lemma removeExcludedPaths_present:
  assumes "currentExclude s = Some ex" "pathsPresent (paths ex)"
  shows "currentExclude (removeExcludedPaths ps s) = Some (ex\<lparr>paths := Some (Multiple (nextAddr s))\<rparr>)"
    and "pathArrays (removeExcludedPaths ps s)
     = (pathArrays s)(nextAddr s := filter (\<lambda>p. p \<notin> set ps)
           (case paths ex of Some (Multiple a) \<Rightarrow> pathArrays s a | Some (Single v) \<Rightarrow> [v] | None \<Rightarrow> []))"
    and "stringArrays (removeExcludedPaths ps s) = stringArrays s"
    and "nextAddr (removeExcludedPaths ps s) = Suc (nextAddr s)"
    and "cachedSchema (removeExcludedPaths ps s) = None"
    and "totalRoutes (removeExcludedPaths ps s) = 0"
  using assms by (simp_all add: removeExcludedPaths_def Let_def samePath_eq list_ex_iff)

lemma removeExcludedTags_absent:
  "excludedTagsRef (currentExclude s) = None \<Longrightarrow> removeExcludedTags ts s = s"
  by (simp add: removeExcludedTags_def excludedTagsRef_def split: option.splits)

lemma removeExcludedTags_present:
  assumes "currentExclude s = Some ex" "tags ex = Some old"
  shows "currentExclude (removeExcludedTags ts s) = Some (ex\<lparr>tags := Some (nextAddr s)\<rparr>)"
    and "stringArrays (removeExcludedTags ts s)
     = (stringArrays s)(nextAddr s := filter (\<lambda>t. t \<notin> set ts) (stringArrays s old))"
    and "pathArrays (removeExcludedTags ts s) = pathArrays s"
    and "nextAddr (removeExcludedTags ts s) = Suc (nextAddr s)"
    and "cachedSchema (removeExcludedTags ts s) = None"
    and "totalRoutes (removeExcludedTags ts s) = 0"
  using assms by (simp_all add: removeExcludedTags_def Let_def)

lemma removeExcludedMethods_absent:
  "excludedMethodsRef (currentExclude s) = None \<Longrightarrow> removeExcludedMethods ms s = s"
  by (simp add: removeExcludedMethods_def excludedMethodsRef_def split: option.splits)

lemma removeExcludedMethods_present:
  assumes "currentExclude s = Some ex" "methods ex = Some old"
  shows "currentExclude (removeExcludedMethods ms s) = Some (ex\<lparr>methods := Some (nextAddr s)\<rparr>)"
    and "stringArrays (removeExcludedMethods ms s)
     = (stringArrays s)(nextAddr s := filter (\<lambda>m. m \<notin> set ms) (stringArrays s old))"
    and "pathArrays (removeExcludedMethods ms s) = pathArrays s"
    and "nextAddr (removeExcludedMethods ms s) = Suc (nextAddr s)"
    and "cachedSchema (removeExcludedMethods ms s) = None"
    and "totalRoutes (removeExcludedMethods ms s) = 0"
  using assms by (simp_all add: removeExcludedMethods_def Let_def)

lemma removeExcludedPaths_invalidates:
  assumes "pathsPresent (excludedPathsField (currentExclude s))"
  shows "cachedSchema (removeExcludedPaths ps s) = None
       \<and> totalRoutes (removeExcludedPaths ps s) = 0"
proof -
  from assms obtain ex where ex: "currentExclude s = Some ex" "pathsPresent (paths ex)"
    by (cases "currentExclude s") (simp_all add: excludedPathsField_def)
  show ?thesis
    by (simp add: removeExcludedPaths_present [OF ex])
qed

lemma removeExcludedTags_invalidates:
  assumes "excludedTagsRef (currentExclude s) \<noteq> None"
  shows "cachedSchema (removeExcludedTags ts s) = None
       \<and> totalRoutes (removeExcludedTags ts s) = 0"
proof -
  from assms obtain ex old where ex: "currentExclude s = Some ex" "tags ex = Some old"
    by (auto simp: excludedTagsRef_def split: option.splits)
  show ?thesis
    by (simp add: removeExcludedTags_present [OF ex])
qed

lemma removeExcludedMethods_invalidates:
  assumes "excludedMethodsRef (currentExclude s) \<noteq> None"
  shows "cachedSchema (removeExcludedMethods ms s) = None
       \<and> totalRoutes (removeExcludedMethods ms s) = 0"
proof -
  from assms obtain ex old where ex: "currentExclude s = Some ex" "methods ex = Some old"
    by (auto simp: excludedMethodsRef_def split: option.splits)
  show ?thesis
    by (simp add: removeExcludedMethods_present [OF ex])
qed

lemma ensureExclude_refs:
  "tags (ensureExclude s) = excludedTagsRef (currentExclude s)"
  "methods (ensureExclude s) = excludedMethodsRef (currentExclude s)"
  "paths (ensureExclude s) = excludedPathsField (currentExclude s)"
  by (simp_all add: ensureExclude_def excludedTagsRef_def excludedMethodsRef_def
        excludedPathsField_def emptyExclude_def split: option.splits)

lemma add_refs:
  "excludedPathsField (currentExclude (addExcludedPaths ps s)) = Some (Multiple (nextAddr s))"
  "excludedTagsRef (currentExclude (addExcludedPaths ps s)) = excludedTagsRef (currentExclude s)"
  "excludedMethodsRef (currentExclude (addExcludedPaths ps s))
     = excludedMethodsRef (currentExclude s)"
  "excludedPathsField (currentExclude (addExcludedTags ts s))
     = excludedPathsField (currentExclude s)"
  "excludedTagsRef (currentExclude (addExcludedTags ts s)) = Some (nextAddr s)"
  "excludedMethodsRef (currentExclude (addExcludedTags ts s))
     = excludedMethodsRef (currentExclude s)"
  "excludedPathsField (currentExclude (addExcludedMethods ms s))
     = excludedPathsField (currentExclude s)"
  "excludedTagsRef (currentExclude (addExcludedMethods ms s))
     = excludedTagsRef (currentExclude s)"
  "excludedMethodsRef (currentExclude (addExcludedMethods ms s)) = Some (nextAddr s)"
  by (simp_all add: addExcludedPaths_fields addExcludedTags_fields addExcludedMethods_fields
        excludedPathsField_def excludedTagsRef_def excludedMethodsRef_def ensureExclude_def
        emptyExclude_def split: option.splits)

lemma state_neq_nextAddr: "nextAddr s' \<noteq> nextAddr s \<Longrightarrow> s' \<noteq> s"
  by auto

lemma exampleCached_fields:
  "currentExclude exampleCached = Some \<lparr>paths = Some (Multiple 0), tags = Some 1, methods = None\<rparr>"
  "cachedSchema exampleCached = Some exampleDocument"
  "totalRoutes exampleCached = 5"
  "nextAddr exampleCached = 2"
  "pathArrays exampleCached 0 = [PathString ''/internal'']"
  "stringArrays exampleCached 1 = [''admin'']"
  by (simp_all add: exampleCached_def exampleState_def initialState_def)

lemma length_exampleRoutes: "length exampleRoutes = 5" "length sixRoutes = 6"
  by (simp_all add: exampleRoutes_def sixRoutes_def)

lemma hostPush_fields:
  "currentExclude (hostPushPath a x s) = currentExclude s"
  "pathArrays (hostPushPath a x s) = (pathArrays s)(a := pathArrays s a @ [x])"
  "stringArrays (hostPushPath a x s) = stringArrays s"
  "cachedSchema (hostPushPath a x s) = cachedSchema s"
  "totalRoutes (hostPushPath a x s) = totalRoutes s"
  "currentExclude (hostPushString a y s) = currentExclude s"
  "stringArrays (hostPushString a y s) = (stringArrays s)(a := stringArrays s a @ [y])"
  "pathArrays (hostPushString a y s) = pathArrays s"
  "cachedSchema (hostPushString a y s) = cachedSchema s"
  "totalRoutes (hostPushString a y s) = totalRoutes s"
  by (simp_all add: hostPushPath_def hostPushString_def)

lemma pathList_hostPushPath:
  "pathList (hostPushPath a x s)
     = (if excludedPathsField (currentExclude s) = Some (Multiple a)
        then pathList s @ [x] else pathList s)"
  by (auto simp: currentPaths_def ensureExclude_def hostPush_fields excludedPathsField_def
        emptyExclude_def split: option.splits pathsField.splits)

lemma tagList_hostPushString:
  "tagList (hostPushString a x s)
     = (if excludedTagsRef (currentExclude s) = Some a then tagList s @ [x] else tagList s)"
  by (auto simp: stringsOr_def hostPush_fields split: option.splits)

lemma methodList_hostPushString:
  "methodList (hostPushString a x s)
     = (if excludedMethodsRef (currentExclude s) = Some a then methodList s @ [x]
        else methodList s)"
  by (auto simp: stringsOr_def hostPush_fields split: option.splits)

section \<open>Route filter: the lists it reads\<close>

lemma excludedTags_tagList: "excludedTags (stringArrays s) (currentExclude s) = tagList s"
  by (simp add: excludedTags_def excludedTagsRef_def stringsOr_def split: option.splits)

lemma excludedMethods_methodList:
  "excludedMethods (stringArrays s) (currentExclude s) = methodList s"
  by (simp add: excludedMethods_def excludedMethodsRef_def stringsOr_def split: option.splits)

lemma excludedPaths_pathList:
  "p \<noteq> [] \<Longrightarrow>
   list_ex (\<lambda>v. pathMatches ext v p) (excludedPaths (pathArrays s) (currentExclude s))
     = list_ex (\<lambda>v. pathMatches ext v p) (pathList s)"
  by (auto simp: excludedPaths_def currentPaths_def ensureExclude_def emptyExclude_def truthy_iff
        split: option.splits pathsField.splits)

lemma routeFilter_lists:
  assumes "path r \<noteq> []"
  shows "routeFilter ext (stringArrays s) (pathArrays s) (currentExclude s) r =
     (if list_ex (\<lambda>pre. isPrefix pre (path r)) (reservedPrefixes ext) then False
      else if hide r then False
      else if list_ex (\<lambda>v. pathMatches ext v (path r)) (pathList s) then False
      else if list_ex (\<lambda>t. t \<in> set (tagList s)) (routeTags r) then False
      else if toLowerCase (method r) \<in> set (map toLowerCase (methodList s)) then False
      else True)"
  unfolding routeFilter_def excludedTags_tagList excludedMethods_methodList
    excludedPaths_pathList [OF assms]
  by (rule refl)


lemma add_then_remove_lists:
  assumes "\<forall>v \<in> set ps. \<forall>p \<in> set (pathList s). \<not> samePath p v"
  shows "pathList (removeExcludedPaths ps (addExcludedPaths ps s)) = pathList s"
    and "tagList (removeExcludedPaths ps (addExcludedPaths ps s)) = tagList s"
    and "methodList (removeExcludedPaths ps (addExcludedPaths ps s)) = methodList s"
proof -
  let ?s1 = "addExcludedPaths ps s"
  let ?ex1 = "(ensureExclude s)\<lparr>paths := Some (Multiple (nextAddr s))\<rparr>"
  have ex1: "currentExclude ?s1 = Some ?ex1" "pathsPresent (paths ?ex1)"
    by (simp_all add: addExcludedPaths_fields)
  have keep: "filter (\<lambda>p. p \<notin> set ps) (pathList s @ ps) = pathList s"
    using assms by (auto simp: samePath_eq filter_id_conv)
  note r = removeExcludedPaths_present [OF ex1, of ps]
  have cur: "currentExclude (removeExcludedPaths ps ?s1)
      = Some (?ex1\<lparr>paths := Some (Multiple (Suc (nextAddr s)))\<rparr>)"
    by (simp add: r addExcludedPaths_fields)
  have arr: "pathArrays (removeExcludedPaths ps ?s1) (Suc (nextAddr s))
      = filter (\<lambda>p. p \<notin> set ps) (pathList s @ ps)"
    by (simp add: r addExcludedPaths_fields)
  have "pathList (removeExcludedPaths ps ?s1)
      = pathArrays (removeExcludedPaths ps ?s1) (Suc (nextAddr s))"
    by (simp add: currentPaths_def [of "removeExcludedPaths ps ?s1"]
          ensureExclude_def [of "removeExcludedPaths ps ?s1"] cur)
  then show "pathList (removeExcludedPaths ps ?s1) = pathList s"
    by (simp only: arr keep)
  show "tagList (removeExcludedPaths ps ?s1) = tagList s"
    by (simp add: r addExcludedPaths_fields excludedTagsRef_def stringsOr_def ensureExclude_def
          emptyExclude_def split: option.splits)
  show "methodList (removeExcludedPaths ps ?s1) = methodList s"
    by (simp add: r addExcludedPaths_fields excludedMethodsRef_def stringsOr_def
          ensureExclude_def emptyExclude_def split: option.splits)
qed

lemma excludedPaths_cases:
  "excludedPaths (pathArrays s) (currentExclude s)
     = (case excludedPathsField (currentExclude s) of
          None \<Rightarrow> []
        | Some (Single v) \<Rightarrow> [v]
        | Some (Multiple a) \<Rightarrow> pathArrays s a)"
  by (simp add: excludedPaths_def excludedPathsField_def split: option.splits)

lemma add_then_remove_refs:
  "excludedPathsField (currentExclude (removeExcludedPaths ps (addExcludedPaths ps s)))
     = Some (Multiple (Suc (nextAddr s)))"
  "excludedTagsRef (currentExclude (removeExcludedPaths ps (addExcludedPaths ps s)))
     = excludedTagsRef (currentExclude s)"
  "excludedMethodsRef (currentExclude (removeExcludedPaths ps (addExcludedPaths ps s)))
     = excludedMethodsRef (currentExclude s)"
  "stringArrays (removeExcludedPaths ps (addExcludedPaths ps s)) = stringArrays s"
proof -
  let ?ex1 = "(ensureExclude s)\<lparr>paths := Some (Multiple (nextAddr s))\<rparr>"
  have ex1: "currentExclude (addExcludedPaths ps s) = Some ?ex1" "pathsPresent (paths ?ex1)"
    by (simp_all add: addExcludedPaths_fields)
  note r = removeExcludedPaths_present [OF ex1, of ps]
  show "excludedPathsField (currentExclude (removeExcludedPaths ps (addExcludedPaths ps s)))
     = Some (Multiple (Suc (nextAddr s)))"
    by (simp add: r excludedPathsField_def addExcludedPaths_fields)
  show "excludedTagsRef (currentExclude (removeExcludedPaths ps (addExcludedPaths ps s)))
     = excludedTagsRef (currentExclude s)"
    by (simp add: r excludedTagsRef_def ensureExclude_def emptyExclude_def split: option.splits)
  show "excludedMethodsRef (currentExclude (removeExcludedPaths ps (addExcludedPaths ps s)))
     = excludedMethodsRef (currentExclude s)"
    by (simp add: r excludedMethodsRef_def ensureExclude_def emptyExclude_def
          split: option.splits)
  show "stringArrays (removeExcludedPaths ps (addExcludedPaths ps s)) = stringArrays s"
    by (simp add: r addExcludedPaths_fields)
qed

section \<open>Spec endpoint: hits and misses\<close>

lemma openAPISchema_hit:
  "cachedSchema s = Some d \<Longrightarrow> totalRoutes s = length routes \<Longrightarrow>
   openAPISchema conv doc routes s = (Inr d, s)"
  by (simp add: openAPISchema_def)

lemma openAPISchema_miss:
  "cachedSchema s = None \<or> totalRoutes s \<noteq> length routes \<Longrightarrow>
   openAPISchema conv doc routes s = rebuildSchema conv doc routes s"
  by (auto simp: openAPISchema_def)

lemma rebuildSchema_Inr:
  assumes "rebuildSchema conv doc routes s = (Inr d, s')"
  shows "\<exists>out. conv (stringArrays s) (pathArrays s) routes (currentExclude s) = Inr out
           \<and> toFullSchema doc out (s\<lparr>totalRoutes := length routes\<rparr>) = (d, s')"
  using assms
  by (auto simp: rebuildSchema_def Let_def split: sum.splits prod.splits)

lemma toFullSchema_state:
  "toFullSchema doc out s = (d, s') \<Longrightarrow> s' = s\<lparr>cachedSchema := Some d\<rparr>"
  by (auto simp: toFullSchema_def Let_def)

lemma openAPISchema_Inr_fresh:
  assumes "openAPISchema conv doc routes s = (Inr d, s')"
  shows "cachedSchema s' = Some d \<and> totalRoutes s' = length routes"
proof (cases "cachedSchema s = None \<or> totalRoutes s \<noteq> length routes")
  case True
  with assms have "rebuildSchema conv doc routes s = (Inr d, s')"
    by (simp add: openAPISchema_miss)
  then obtain out where "toFullSchema doc out (s\<lparr>totalRoutes := length routes\<rparr>) = (d, s')"
    using rebuildSchema_Inr by blast
  then show ?thesis by (auto dest: toFullSchema_state)
next
  case False
  then obtain d0 where d0: "cachedSchema s = Some d0" "totalRoutes s = length routes"
    by auto
  with assms show ?thesis by (simp add: openAPISchema_hit)
qed

lemma toFullSchema_out_paths:
  "toFullSchema doc out s = (d, s') \<Longrightarrow> out_paths d = conv_paths out ++ spread (doc_paths doc)"
  by (auto simp: toFullSchema_def Let_def)

lemma toFullSchema_totalRoutes:
  "fst (toFullSchema doc out (s\<lparr>totalRoutes := n\<rparr>)) = fst (toFullSchema doc out s)"
  by (simp add: toFullSchema_def Let_def split: option.splits)

lemma toFullSchema_snd:
  "snd (toFullSchema doc out s) = s\<lparr>cachedSchema := Some (fst (toFullSchema doc out s))\<rparr>"
  by (simp add: toFullSchema_def Let_def)

lemma example_first_read:
  "openAPISchema fixedConverter exampleDocumentation exampleRoutes exampleState
     = (Inr exampleDocument, exampleCached)"
proof -
  have d: "fst (toFullSchema doc out (s\<lparr>totalRoutes := n\<rparr>)) = fst (toFullSchema doc out s)"
    for doc out s n
    by (simp add: toFullSchema_def Let_def split: option.splits)
  have s: "snd (toFullSchema doc out s) = s\<lparr>cachedSchema := Some (fst (toFullSchema doc out s))\<rparr>"
    for doc out s
    by (simp add: toFullSchema_def Let_def)
  have stale: "cachedSchema exampleState = None"
    by (simp add: exampleState_def initialState_def)
  have "openAPISchema fixedConverter exampleDocumentation exampleRoutes exampleState
      = rebuildSchema fixedConverter exampleDocumentation exampleRoutes exampleState"
    by (rule openAPISchema_miss) (simp add: stale)
  also have "\<dots> = (Inr exampleDocument, exampleCached)"
    by (simp add: rebuildSchema_def fixedConverter_def Let_def split_beta d s
          exampleDocument_def exampleCached_def length_exampleRoutes)
  finally show ?thesis .
qed

section \<open>Schema converter: which operations it emits\<close>

lemma present_operationAt:
  "present ext d r \<longleftrightarrow> operationAt (out_paths d) (pathItemKey ext (path r)) (method r) \<noteq> None"
  by (simp add: present_def operationAt_def split: option.splits)

lemma operationAt_addOperation:
  "operationAt (conv_paths (addOperation key m operation named acc)) key' m'
     = (if key' = key \<and> m' = m then Some operation else operationAt (conv_paths acc) key' m')"
  by (simp add: addOperation_def operationAt_def spread_def split: option.splits)

lemma convertRoutes_operationAt:
  "convertRoutes ext keep rs acc = Inr out \<Longrightarrow>
   operationAt (conv_paths out) key m \<noteq> None \<longleftrightarrow>
     operationAt (conv_paths acc) key m \<noteq> None
     \<or> (\<exists>r \<in> set rs. keep r \<and> pathItemKey ext (path r) = key \<and> method r = m)"
proof (induction rs arbitrary: acc)
  case Nil
  then show ?case by simp
next
  case (Cons r rs)
  show ?case
  proof (cases "keep r")
    case False
    with Cons.prems have "convertRoutes ext keep rs acc = Inr out" by simp
    from Cons.IH [OF this] False show ?thesis by auto
  next
    case True
    with Cons.prems obtain operation named where
      d: "describeOperation ext r = Inr (operation, named)"
      and rest: "convertRoutes ext keep rs
          (addOperation (pathItemKey ext (path r)) (method r) operation named acc) = Inr out"
      by (auto split: sum.splits)
    from Cons.IH [OF rest] True show ?thesis
      by (auto simp: operationAt_addOperation)
  qed
qed

lemma operationAt_map_add:
  "operationAt (a ++ b) key m
     = (case b key of None \<Rightarrow> operationAt a key m | Some item \<Rightarrow> item m)"
  by (simp add: operationAt_def map_add_def split: option.splits)


lemma convertRoutes_succeeds:
  "\<forall>r \<in> set rs. keep r \<longrightarrow> (\<exists>x. describeOperation ext r = Inr x) \<Longrightarrow>
   \<exists>out. convertRoutes ext keep rs acc = Inr out"
proof (induction rs arbitrary: acc)
  case Nil
  then show ?case by simp
next
  case (Cons r rs)
  then show ?case by (cases "keep r") (auto split: sum.splits)
qed


lemma built_operations:
  assumes "toOpenAPISchema ext sa pa routes ex = Inr out"
  shows "present ext (fst (toFullSchema doc out s)) r \<longleftrightarrow>
     (case spread (doc_paths doc) (pathItemKey ext (path r)) of
        Some item \<Rightarrow> item (method r) \<noteq> None
      | None \<Rightarrow> \<exists>r' \<in> set routes.
            routeFilter ext sa pa ex r'
            \<and> pathItemKey ext (path r') = pathItemKey ext (path r) \<and> method r' = method r)"
proof -
  have f: "toFullSchema doc out s = (fst (toFullSchema doc out s), snd (toFullSchema doc out s))"
    by simp
  have "operationAt (conv_paths out) (pathItemKey ext (path r)) (method r) \<noteq> None \<longleftrightarrow>
     (\<exists>r' \<in> set routes.
            routeFilter ext sa pa ex r'
            \<and> pathItemKey ext (path r') = pathItemKey ext (path r) \<and> method r' = method r)"
    using convertRoutes_operationAt [OF assms [unfolded toOpenAPISchema_def],
        of "pathItemKey ext (path r)" "method r"]
    by (simp add: operationAt_def)
  then show ?thesis
    unfolding present_operationAt
    by (simp add: toFullSchema_out_paths [OF f] operationAt_map_add split: option.splits)
qed

lemma example_conversion_succeeds:
  "\<exists>out. toOpenAPISchema exampleExternal sa pa routes ex = Inr out"
  unfolding toOpenAPISchema_def
  by (rule convertRoutes_succeeds) (simp add: exampleExternal_def)

lemma example_static_paths:
  "p \<noteq> ''/a'' \<Longrightarrow>
   spread (doc_paths exampleDocumentation)
     (pathItemKey exampleExternal (path (exampleRoute m p ts))) = None"
  by (simp add: exampleDocumentation_def exampleExternal_def exampleRoute_def spread_def)

section \<open>Exclusion store: properties\<close>

text \<open>
  Claim C8. \<open>addExcludedPaths\<close> stores a newly allocated array holding the prior path
  entries, in their order, followed by the given values: the given values alone when the
  policy or its \<open>paths\<close> field is absent, the prior array's elements when \<open>paths\<close> is an
  array, the one prior value when \<open>paths\<close> is a single value other than the empty
  string. A single empty string is falsy and counts as no entry. No existing array is
  written, the \<open>tags\<close> and \<open>methods\<close> fields are kept, and every call invalidates the
  cache.
\<close>

theorem addExcludedPaths_appends:
  "excludedPathsField (currentExclude (addExcludedPaths ps s)) = Some (Multiple (nextAddr s))
   \<and> (excludedPathsField (currentExclude s) = None \<longrightarrow>
        pathArrays (addExcludedPaths ps s) (nextAddr s) = ps)
   \<and> (\<forall>a. excludedPathsField (currentExclude s) = Some (Multiple a) \<longrightarrow>
        pathArrays (addExcludedPaths ps s) (nextAddr s) = pathArrays s a @ ps)
   \<and> (\<forall>v. excludedPathsField (currentExclude s) = Some (Single v) \<and> v \<noteq> PathString [] \<longrightarrow>
        pathArrays (addExcludedPaths ps s) (nextAddr s) = v # ps)
   \<and> (excludedPathsField (currentExclude s) = Some (Single (PathString [])) \<longrightarrow>
        pathArrays (addExcludedPaths ps s) (nextAddr s) = ps)
   \<and> (\<forall>a. a \<noteq> nextAddr s \<longrightarrow> pathArrays (addExcludedPaths ps s) a = pathArrays s a)
   \<and> excludedTagsRef (currentExclude (addExcludedPaths ps s)) = excludedTagsRef (currentExclude s)
   \<and> excludedMethodsRef (currentExclude (addExcludedPaths ps s))
        = excludedMethodsRef (currentExclude s)
   \<and> stringArrays (addExcludedPaths ps s) = stringArrays s
   \<and> cachedSchema (addExcludedPaths ps s) = None
   \<and> totalRoutes (addExcludedPaths ps s) = 0"
proof -
  have truthy_iff: "truthy v \<longleftrightarrow> v \<noteq> PathString []" for v
    by (cases v) simp_all
  have lists: "pathArrays (addExcludedPaths ps s) (nextAddr s)
      = (case excludedPathsField (currentExclude s) of
           None \<Rightarrow> ps
         | Some (Multiple a) \<Rightarrow> pathArrays s a @ ps
         | Some (Single v) \<Rightarrow> (if v = PathString [] then ps else v # ps))"
    by (simp add: addExcludedPaths_fields currentPaths_def ensureExclude_refs truthy_iff
          split: option.splits pathsField.splits)
  have field: "excludedPathsField (currentExclude (addExcludedPaths ps s))
      = Some (Multiple (nextAddr s))"
    by (simp add: addExcludedPaths_fields excludedPathsField_def)
  have others: "excludedTagsRef (currentExclude (addExcludedPaths ps s))
      = excludedTagsRef (currentExclude s)"
    "excludedMethodsRef (currentExclude (addExcludedPaths ps s))
      = excludedMethodsRef (currentExclude s)"
    by (simp_all add: addExcludedPaths_fields excludedTagsRef_def excludedMethodsRef_def
          ensureExclude_def emptyExclude_def split: option.splits)
  have frame: "\<forall>a. a \<noteq> nextAddr s \<longrightarrow> pathArrays (addExcludedPaths ps s) a = pathArrays s a"
    by (simp add: addExcludedPaths_fields)
  have cases: "excludedPathsField (currentExclude s) = None \<longrightarrow>
        pathArrays (addExcludedPaths ps s) (nextAddr s) = ps"
    "\<forall>a. excludedPathsField (currentExclude s) = Some (Multiple a) \<longrightarrow>
        pathArrays (addExcludedPaths ps s) (nextAddr s) = pathArrays s a @ ps"
    "\<forall>v. excludedPathsField (currentExclude s) = Some (Single v) \<and> v \<noteq> PathString [] \<longrightarrow>
        pathArrays (addExcludedPaths ps s) (nextAddr s) = v # ps"
    "excludedPathsField (currentExclude s) = Some (Single (PathString [])) \<longrightarrow>
        pathArrays (addExcludedPaths ps s) (nextAddr s) = ps"
    by (simp_all add: lists)
  have cache: "stringArrays (addExcludedPaths ps s) = stringArrays s"
    "cachedSchema (addExcludedPaths ps s) = None" "totalRoutes (addExcludedPaths ps s) = 0"
    by (simp_all add: addExcludedPaths_fields)
  show ?thesis
    using field cases frame others cache by blast
qed

text \<open>
  The example policy, a single pattern-matcher, and no policy at all; and the cache of
  the example state after the call.
\<close>

theorem addExcludedPaths_appends_witness:
  "pathArrays (addExcludedPaths [PathString ''/health''] exampleState) 2
     = [PathString ''/internal'', PathString ''/health'']
   \<and> pathArrays (addExcludedPaths [PathString ''/health''] (scalarState (PathRegExp ''^/x'' ''i''))) 0
     = [PathRegExp ''^/x'' ''i'', PathString ''/health'']
   \<and> pathArrays (addExcludedPaths [PathString ''/health''] emptyState) 0
     = [PathString ''/health'']
   \<and> cachedSchema (addExcludedPaths [PathString ''/health''] exampleCached) = None"
proof -
  have a: "excludedPathsField (currentExclude exampleState) = Some (Multiple 0)"
    "nextAddr exampleState = 2" "pathArrays exampleState 0 = [PathString ''/internal'']"
    by (simp_all add: exampleState_def initialState_def excludedPathsField_def)
  have b: "excludedPathsField (currentExclude (scalarState (PathRegExp ''^/x'' ''i'')))
             = Some (Single (PathRegExp ''^/x'' ''i''))"
    "nextAddr (scalarState (PathRegExp ''^/x'' ''i'')) = 0"
    by (simp_all add: scalarState_def initialState_def excludedPathsField_def)
  have c: "excludedPathsField (currentExclude emptyState) = None" "nextAddr emptyState = 0"
    by (simp_all add: emptyState_def initialState_def excludedPathsField_def)
  show ?thesis
    using addExcludedPaths_appends [of "[PathString ''/health'']" exampleState]
      addExcludedPaths_appends [of "[PathString ''/health'']" "scalarState (PathRegExp ''^/x'' ''i'')"]
      addExcludedPaths_appends [of "[PathString ''/health'']" emptyState]
      addExcludedPaths_appends [of "[PathString ''/health'']" exampleCached]
      a b c
    by simp
qed

text \<open>
  With \<open>paths: ''\<close> the prior single value is not kept as a one-element list: the
  stored array is not \<open>['', '/health']\<close>.
\<close>

theorem addExcludedPaths_empty_scalar_counterexample:
  "excludedPathsField (currentExclude (scalarState (PathString [])))
     = Some (Single (PathString []))
   \<and> excludedPathsField (currentExclude
         (addExcludedPaths [PathString ''/health''] (scalarState (PathString []))))
     = Some (Multiple 0)
   \<and> pathArrays (addExcludedPaths [PathString ''/health''] (scalarState (PathString []))) 0
     \<noteq> [PathString [], PathString ''/health'']"
  by (simp add: scalarState_def initialState_def excludedPathsField_def addExcludedPaths_def
        Let_def invalidateCache_def ensureExclude_def currentPaths_def)

text \<open>
  Claim C10. \<open>addExcludedPaths\<close>, \<open>addExcludedTags\<close> and \<open>addExcludedMethods\<close> called
  with no argument are not no-ops: \<open>getExclusion\<close> afterwards returns a record, which for
  an absent policy is the record whose only field is the new, empty list, and which
  otherwise keeps the other two fields. The list of the dimension is replaced by a newly
  allocated array: empty when the policy had no such list, and otherwise holding the
  elements of the prior array or, for paths, the one prior single value; a single empty
  string is not copied and leaves an empty list. All other arrays are as before, the
  cache is invalidated, and the state has changed.
\<close>

theorem add_without_arguments:
  "getExclusion (addExcludedPaths [] s) \<noteq> None
   \<and> getExclusion (addExcludedTags [] s) \<noteq> None
   \<and> getExclusion (addExcludedMethods [] s) \<noteq> None
   \<and> (getExclusion s = None \<longrightarrow>
        getExclusion (addExcludedPaths [] s)
          = Some \<lparr>paths = Some (Multiple (nextAddr s)), tags = None, methods = None\<rparr>
        \<and> getExclusion (addExcludedTags [] s)
          = Some \<lparr>paths = None, tags = Some (nextAddr s), methods = None\<rparr>
        \<and> getExclusion (addExcludedMethods [] s)
          = Some \<lparr>paths = None, tags = None, methods = Some (nextAddr s)\<rparr>)
   \<and> excludedPathsField (currentExclude (addExcludedPaths [] s)) = Some (Multiple (nextAddr s))
   \<and> (excludedPathsField (currentExclude s) = None \<longrightarrow>
        pathArrays (addExcludedPaths [] s) (nextAddr s) = [])
   \<and> (\<forall>a. excludedPathsField (currentExclude s) = Some (Multiple a) \<longrightarrow>
        pathArrays (addExcludedPaths [] s) (nextAddr s) = pathArrays s a)
   \<and> (\<forall>v. excludedPathsField (currentExclude s) = Some (Single v) \<and> v \<noteq> PathString [] \<longrightarrow>
        pathArrays (addExcludedPaths [] s) (nextAddr s) = [v])
   \<and> (excludedPathsField (currentExclude s) = Some (Single (PathString [])) \<longrightarrow>
        pathArrays (addExcludedPaths [] s) (nextAddr s) = [])
   \<and> excludedTagsRef (currentExclude (addExcludedPaths [] s))
        = excludedTagsRef (currentExclude s)
   \<and> excludedMethodsRef (currentExclude (addExcludedPaths [] s))
        = excludedMethodsRef (currentExclude s)
   \<and> excludedTagsRef (currentExclude (addExcludedTags [] s)) = Some (nextAddr s)
   \<and> (excludedTagsRef (currentExclude s) = None \<longrightarrow>
        stringArrays (addExcludedTags [] s) (nextAddr s) = [])
   \<and> (\<forall>a. excludedTagsRef (currentExclude s) = Some a \<longrightarrow>
        stringArrays (addExcludedTags [] s) (nextAddr s) = stringArrays s a)
   \<and> excludedPathsField (currentExclude (addExcludedTags [] s))
        = excludedPathsField (currentExclude s)
   \<and> excludedMethodsRef (currentExclude (addExcludedTags [] s))
        = excludedMethodsRef (currentExclude s)
   \<and> excludedMethodsRef (currentExclude (addExcludedMethods [] s)) = Some (nextAddr s)
   \<and> (excludedMethodsRef (currentExclude s) = None \<longrightarrow>
        stringArrays (addExcludedMethods [] s) (nextAddr s) = [])
   \<and> (\<forall>a. excludedMethodsRef (currentExclude s) = Some a \<longrightarrow>
        stringArrays (addExcludedMethods [] s) (nextAddr s) = stringArrays s a)
   \<and> excludedPathsField (currentExclude (addExcludedMethods [] s))
        = excludedPathsField (currentExclude s)
   \<and> excludedTagsRef (currentExclude (addExcludedMethods [] s))
        = excludedTagsRef (currentExclude s)
   \<and> (\<forall>a. a \<noteq> nextAddr s \<longrightarrow>
          pathArrays (addExcludedPaths [] s) a = pathArrays s a
          \<and> stringArrays (addExcludedTags [] s) a = stringArrays s a
          \<and> stringArrays (addExcludedMethods [] s) a = stringArrays s a)
   \<and> stringArrays (addExcludedPaths [] s) = stringArrays s
   \<and> pathArrays (addExcludedTags [] s) = pathArrays s
   \<and> pathArrays (addExcludedMethods [] s) = pathArrays s
   \<and> cachedSchema (addExcludedPaths [] s) = None \<and> totalRoutes (addExcludedPaths [] s) = 0
   \<and> cachedSchema (addExcludedTags [] s) = None \<and> totalRoutes (addExcludedTags [] s) = 0
   \<and> cachedSchema (addExcludedMethods [] s) = None \<and> totalRoutes (addExcludedMethods [] s) = 0
   \<and> addExcludedPaths [] s \<noteq> s \<and> addExcludedTags [] s \<noteq> s \<and> addExcludedMethods [] s \<noteq> s"
proof -
  have present: "getExclusion (addExcludedPaths [] s) \<noteq> None"
    "getExclusion (addExcludedTags [] s) \<noteq> None"
    "getExclusion (addExcludedMethods [] s) \<noteq> None"
    by (simp_all add: getExclusion_def addExcludedPaths_fields addExcludedTags_fields
          addExcludedMethods_fields)
  have created: "getExclusion s = None \<longrightarrow>
        getExclusion (addExcludedPaths [] s)
          = Some \<lparr>paths = Some (Multiple (nextAddr s)), tags = None, methods = None\<rparr>
        \<and> getExclusion (addExcludedTags [] s)
          = Some \<lparr>paths = None, tags = Some (nextAddr s), methods = None\<rparr>
        \<and> getExclusion (addExcludedMethods [] s)
          = Some \<lparr>paths = None, tags = None, methods = Some (nextAddr s)\<rparr>"
    by (simp add: getExclusion_def addExcludedPaths_fields addExcludedTags_fields
          addExcludedMethods_fields ensureExclude_def emptyExclude_def)
  have pathCopy: "excludedPathsField (currentExclude s) = None \<longrightarrow>
        pathArrays (addExcludedPaths [] s) (nextAddr s) = []"
    "\<forall>a. excludedPathsField (currentExclude s) = Some (Multiple a) \<longrightarrow>
        pathArrays (addExcludedPaths [] s) (nextAddr s) = pathArrays s a"
    "\<forall>v. excludedPathsField (currentExclude s) = Some (Single v) \<and> v \<noteq> PathString [] \<longrightarrow>
        pathArrays (addExcludedPaths [] s) (nextAddr s) = [v]"
    "excludedPathsField (currentExclude s) = Some (Single (PathString [])) \<longrightarrow>
        pathArrays (addExcludedPaths [] s) (nextAddr s) = []"
    by (auto simp: addExcludedPaths_fields currentPaths_def ensureExclude_refs truthy_iff)
  have tagCopy: "excludedTagsRef (currentExclude s) = None \<longrightarrow>
        stringArrays (addExcludedTags [] s) (nextAddr s) = []"
    "\<forall>a. excludedTagsRef (currentExclude s) = Some a \<longrightarrow>
        stringArrays (addExcludedTags [] s) (nextAddr s) = stringArrays s a"
    by (simp_all add: addExcludedTags_fields stringsOr_def ensureExclude_refs)
  have methodCopy: "excludedMethodsRef (currentExclude s) = None \<longrightarrow>
        stringArrays (addExcludedMethods [] s) (nextAddr s) = []"
    "\<forall>a. excludedMethodsRef (currentExclude s) = Some a \<longrightarrow>
        stringArrays (addExcludedMethods [] s) (nextAddr s) = stringArrays s a"
    by (simp_all add: addExcludedMethods_fields stringsOr_def ensureExclude_refs)
  note refs = add_refs [of "[]" s]
  have frame: "\<forall>a. a \<noteq> nextAddr s \<longrightarrow>
          pathArrays (addExcludedPaths [] s) a = pathArrays s a
          \<and> stringArrays (addExcludedTags [] s) a = stringArrays s a
          \<and> stringArrays (addExcludedMethods [] s) a = stringArrays s a"
    "stringArrays (addExcludedPaths [] s) = stringArrays s"
    "pathArrays (addExcludedTags [] s) = pathArrays s"
    "pathArrays (addExcludedMethods [] s) = pathArrays s"
    by (simp_all add: addExcludedPaths_fields addExcludedTags_fields addExcludedMethods_fields)
  have cache: "cachedSchema (addExcludedPaths [] s) = None" "totalRoutes (addExcludedPaths [] s) = 0"
    "cachedSchema (addExcludedTags [] s) = None" "totalRoutes (addExcludedTags [] s) = 0"
    "cachedSchema (addExcludedMethods [] s) = None" "totalRoutes (addExcludedMethods [] s) = 0"
    by (simp_all add: addExcludedPaths_fields addExcludedTags_fields addExcludedMethods_fields)
  have changed: "addExcludedPaths [] s \<noteq> s" "addExcludedTags [] s \<noteq> s"
    "addExcludedMethods [] s \<noteq> s"
    by (rule state_neq_nextAddr, simp add: addExcludedPaths_fields addExcludedTags_fields
          addExcludedMethods_fields)+
  show ?thesis
    using present created pathCopy tagCopy methodCopy refs frame cache changed
    by (intro conjI)
qed

text \<open>
  The plugin configured without \<open>exclude\<close>; the example policy with its path and tag
  arrays and no method list, a document being cached; and a single pattern-matcher.
\<close>

theorem add_without_arguments_witness:
  "getExclusion emptyState = None
   \<and> getExclusion (addExcludedPaths [] emptyState)
        = Some \<lparr>paths = Some (Multiple 0), tags = None, methods = None\<rparr>
   \<and> pathArrays (addExcludedPaths [] emptyState) 0 = []
   \<and> getExclusion (addExcludedTags [] emptyState)
        = Some \<lparr>paths = None, tags = Some 0, methods = None\<rparr>
   \<and> getExclusion (addExcludedMethods [] emptyState)
        = Some \<lparr>paths = None, tags = None, methods = Some 0\<rparr>
   \<and> pathArrays (addExcludedPaths [] exampleCached) 2 = [PathString ''/internal'']
   \<and> stringArrays (addExcludedTags [] exampleCached) 2 = [''admin'']
   \<and> stringArrays (addExcludedMethods [] exampleCached) 2 = []
   \<and> pathArrays (addExcludedPaths [] (scalarState (PathRegExp ''^/tmp'' ''i''))) 0
        = [PathRegExp ''^/tmp'' ''i'']
   \<and> cachedSchema exampleCached = Some exampleDocument
   \<and> cachedSchema (addExcludedPaths [] exampleCached) = None
   \<and> cachedSchema (addExcludedTags [] exampleCached) = None
   \<and> totalRoutes (addExcludedMethods [] exampleCached) = 0"
proof -
  have e: "getExclusion emptyState = None" "nextAddr emptyState = 0"
    "excludedPathsField (currentExclude emptyState) = None"
    by (simp_all add: emptyState_def initialState_def getExclusion_def excludedPathsField_def)
  have c: "nextAddr exampleCached = 2"
    "excludedPathsField (currentExclude exampleCached) = Some (Multiple 0)"
    "excludedTagsRef (currentExclude exampleCached) = Some 1"
    "excludedMethodsRef (currentExclude exampleCached) = None"
    "pathArrays exampleCached 0 = [PathString ''/internal'']"
    "stringArrays exampleCached 1 = [''admin'']"
    "cachedSchema exampleCached = Some exampleDocument"
    by (simp_all add: exampleCached_def exampleState_def initialState_def
          excludedPathsField_def excludedTagsRef_def excludedMethodsRef_def)
  have r: "nextAddr (scalarState (PathRegExp ''^/tmp'' ''i'')) = 0"
    "excludedPathsField (currentExclude (scalarState (PathRegExp ''^/tmp'' ''i'')))
       = Some (Single (PathRegExp ''^/tmp'' ''i''))"
    by (simp_all add: scalarState_def initialState_def excludedPathsField_def)
  have direct: "pathArrays (addExcludedPaths [] exampleCached) 2 = [PathString ''/internal'']"
    "stringArrays (addExcludedTags [] exampleCached) 2 = [''admin'']"
    by (simp_all add: addExcludedPaths_def addExcludedTags_def Let_def invalidateCache_def
          currentPaths_def stringsOr_def ensureExclude_def exampleCached_def exampleState_def
          initialState_def)
  show ?thesis
    using add_without_arguments [of emptyState] add_without_arguments [of exampleCached]
      add_without_arguments [of "scalarState (PathRegExp ''^/tmp'' ''i'')"] e c r direct
    by simp
qed

text \<open>
  With \<open>paths: ''\<close> the call \<open>addExcludedPaths()\<close> does not copy the list: the new array
  is empty, and a route with the empty path, excluded before, is accepted afterwards.
\<close>

theorem add_without_arguments_empty_scalar_counterexample:
  "excludedPathsField (currentExclude (scalarState (PathString [])))
     = Some (Single (PathString []))
   \<and> excludedPathsField (currentExclude (addExcludedPaths [] (scalarState (PathString []))))
     = Some (Multiple 0)
   \<and> pathArrays (addExcludedPaths [] (scalarState (PathString []))) 0 \<noteq> [PathString []]
   \<and> \<not> routeFilter exampleExternal
         (stringArrays (scalarState (PathString [])))
         (pathArrays (scalarState (PathString [])))
         (currentExclude (scalarState (PathString [])))
         (exampleRoute ''GET'' [] [])
   \<and> routeFilter exampleExternal
         (stringArrays (addExcludedPaths [] (scalarState (PathString []))))
         (pathArrays (addExcludedPaths [] (scalarState (PathString []))))
         (currentExclude (addExcludedPaths [] (scalarState (PathString []))))
         (exampleRoute ''GET'' [] [])"
  by (simp add: scalarState_def initialState_def excludedPathsField_def addExcludedPaths_def
        Let_def invalidateCache_def ensureExclude_def currentPaths_def routeFilter_def
        excludedPaths_def excludedTags_def excludedMethods_def exampleExternal_def
        exampleRoute_def)

text \<open>
  Claim C7. \<open>addExcludedTags\<close> appends the given tags after the existing ones, so the set
  of excluded tags is the union and every prior entry keeps its place, but a tag that was
  already present is then listed twice. \<open>removeExcludedTags\<close> keeps exactly the entries
  that are not among the given tags, in their original order, so the set of excluded tags
  is the difference. The method operations behave the same way on the method list.
\<close>

theorem tags_and_methods_append_and_filter:
  "tagList (addExcludedTags ts s) = tagList s @ ts
   \<and> set (tagList (addExcludedTags ts s)) = set (tagList s) \<union> set ts
   \<and> tagList (removeExcludedTags ts s) = filter (\<lambda>t. t \<notin> set ts) (tagList s)
   \<and> set (tagList (removeExcludedTags ts s)) = set (tagList s) - set ts
   \<and> methodList (addExcludedMethods ms s) = methodList s @ ms
   \<and> set (methodList (addExcludedMethods ms s)) = set (methodList s) \<union> set ms
   \<and> methodList (removeExcludedMethods ms s) = filter (\<lambda>m. m \<notin> set ms) (methodList s)
   \<and> set (methodList (removeExcludedMethods ms s)) = set (methodList s) - set ms"
proof -
  have addT: "tagList (addExcludedTags ts s) = tagList s @ ts"
    by (simp add: addExcludedTags_fields excludedTagsRef_def stringsOr_def ensureExclude_def
          emptyExclude_def split: option.splits)
  have addM: "methodList (addExcludedMethods ms s) = methodList s @ ms"
    by (simp add: addExcludedMethods_fields excludedMethodsRef_def stringsOr_def
          ensureExclude_def emptyExclude_def split: option.splits)
  have remT: "tagList (removeExcludedTags ts s) = filter (\<lambda>t. t \<notin> set ts) (tagList s)"
  proof (cases "excludedTagsRef (currentExclude s)")
    case None
    then show ?thesis by (simp add: removeExcludedTags_absent stringsOr_def)
  next
    case (Some old)
    then obtain ex where ex: "currentExclude s = Some ex" "tags ex = Some old"
      by (auto simp: excludedTagsRef_def split: option.splits)
    show ?thesis
      using Some by (simp add: removeExcludedTags_present [OF ex] excludedTagsRef_def stringsOr_def)
  qed
  have remM: "methodList (removeExcludedMethods ms s) = filter (\<lambda>m. m \<notin> set ms) (methodList s)"
  proof (cases "excludedMethodsRef (currentExclude s)")
    case None
    then show ?thesis by (simp add: removeExcludedMethods_absent stringsOr_def)
  next
    case (Some old)
    then obtain ex where ex: "currentExclude s = Some ex" "methods ex = Some old"
      by (auto simp: excludedMethodsRef_def split: option.splits)
    show ?thesis
      using Some
      by (simp add: removeExcludedMethods_present [OF ex] excludedMethodsRef_def stringsOr_def)
  qed
  have "set (tagList (addExcludedTags ts s)) = set (tagList s) \<union> set ts"
    by (simp only: addT set_append)
  moreover have "set (tagList (removeExcludedTags ts s)) = set (tagList s) - set ts"
    by (simp only: remT) auto
  moreover have "set (methodList (addExcludedMethods ms s)) = set (methodList s) \<union> set ms"
    by (simp only: addM set_append)
  moreover have "set (methodList (removeExcludedMethods ms s)) = set (methodList s) - set ms"
    by (simp only: remM) auto
  ultimately show ?thesis using addT addM remT remM by blast
qed

text \<open>
  On the example policy, whose tag list is \<open>['admin']\<close> and which has no method list.
\<close>

theorem tags_and_methods_append_and_filter_witness:
  "tagList (addExcludedTags [''users''] exampleState) = [''admin'', ''users'']
   \<and> tagList (removeExcludedTags [''admin''] exampleState) = []
   \<and> methodList (addExcludedMethods [''GET''] exampleState) = [''GET'']"
proof -
  have t: "tagList exampleState = [''admin'']" "methodList exampleState = []"
    by (simp_all add: exampleState_def initialState_def excludedTagsRef_def
          excludedMethodsRef_def stringsOr_def)
  show ?thesis
    using tags_and_methods_append_and_filter [of "[''users'']" exampleState "[''GET'']"]
      tags_and_methods_append_and_filter [of "[''admin'']" exampleState "[]"] t
    by simp
qed

text \<open>
  Adding \<open>'admin'\<close> to the tag list \<open>['admin']\<close> leaves a list with a duplicate.
\<close>

theorem addExcludedTags_duplicate_counterexample:
  "distinct (tagList exampleState)
   \<and> \<not> distinct (tagList (addExcludedTags [''admin''] exampleState))"
  by (simp add: exampleState_def initialState_def excludedTagsRef_def stringsOr_def
        addExcludedTags_def Let_def invalidateCache_def ensureExclude_def)

text \<open>
  Claim C5. A removal operation leaves the whole state, the cached document and the route
  counter included, unchanged when the policy has no list for its dimension (no policy,
  no such field, or for paths a single empty string). When the list is present the call
  invalidates the cache, whether or not any entry matched the given values.
\<close>

theorem removal_invalidates_when_list_present:
  "(\<not> pathsPresent (excludedPathsField (currentExclude s)) \<longrightarrow> removeExcludedPaths ps s = s)
   \<and> (excludedTagsRef (currentExclude s) = None \<longrightarrow> removeExcludedTags ts s = s)
   \<and> (excludedMethodsRef (currentExclude s) = None \<longrightarrow> removeExcludedMethods ms s = s)
   \<and> (pathsPresent (excludedPathsField (currentExclude s)) \<longrightarrow>
        cachedSchema (removeExcludedPaths ps s) = None
        \<and> totalRoutes (removeExcludedPaths ps s) = 0)
   \<and> (excludedTagsRef (currentExclude s) \<noteq> None \<longrightarrow>
        cachedSchema (removeExcludedTags ts s) = None
        \<and> totalRoutes (removeExcludedTags ts s) = 0)
   \<and> (excludedMethodsRef (currentExclude s) \<noteq> None \<longrightarrow>
        cachedSchema (removeExcludedMethods ms s) = None
        \<and> totalRoutes (removeExcludedMethods ms s) = 0)"
  using removeExcludedPaths_absent [of s ps] removeExcludedTags_absent [of s ts]
    removeExcludedMethods_absent [of s ms] removeExcludedPaths_invalidates [of s ps]
    removeExcludedTags_invalidates [of s ts] removeExcludedMethods_invalidates [of s ms]
  by blast

text \<open>
  The example state with a cached document has path and tag lists but no method list;
  the plugin without \<open>exclude\<close> has no list at all.
\<close>

theorem removal_invalidates_when_list_present_witness:
  "removeExcludedMethods [''GET''] exampleCached = exampleCached
   \<and> removeExcludedPaths [PathString ''/internal''] emptyState = emptyState
   \<and> cachedSchema exampleCached = Some exampleDocument
   \<and> cachedSchema (removeExcludedPaths [PathString ''/internal''] exampleCached) = None
   \<and> totalRoutes (removeExcludedTags [''admin''] exampleCached) = 0"
proof -
  have a: "excludedMethodsRef (currentExclude exampleCached) = None"
    "excludedTagsRef (currentExclude exampleCached) \<noteq> None"
    "pathsPresent (excludedPathsField (currentExclude exampleCached))"
    by (simp_all add: exampleCached_fields excludedMethodsRef_def excludedTagsRef_def
          excludedPathsField_def)
  have b: "\<not> pathsPresent (excludedPathsField (currentExclude emptyState))"
    by (simp add: emptyState_def initialState_def excludedPathsField_def)
  show ?thesis
    using removal_invalidates_when_list_present
            [of exampleCached "[PathString ''/internal'']" "[''admin'']" "[''GET'']"]
      removal_invalidates_when_list_present [of emptyState "[PathString ''/internal'']" "[]" "[]"]
      a b
    by (simp add: exampleCached_fields)
qed

text \<open>
  Removing \<open>'/other'\<close> from the path list \<open>['/internal']\<close> removes nothing, and the
  cached document and the counter are reset all the same.
\<close>

theorem removal_without_match_counterexample:
  "cachedSchema exampleCached = Some exampleDocument
   \<and> totalRoutes exampleCached = 5
   \<and> pathList exampleCached = [PathString ''/internal'']
   \<and> pathList (removeExcludedPaths [PathString ''/other''] exampleCached)
       = [PathString ''/internal'']
   \<and> cachedSchema (removeExcludedPaths [PathString ''/other''] exampleCached) = None
   \<and> totalRoutes (removeExcludedPaths [PathString ''/other''] exampleCached) = 0"
proof -
  have ex: "currentExclude exampleCached
      = Some \<lparr>paths = Some (Multiple 0), tags = Some 1, methods = None\<rparr>"
    "pathsPresent (paths \<lparr>paths = Some (Multiple 0), tags = Some 1, methods = None\<rparr>)"
    by (simp_all add: exampleCached_fields)
  show ?thesis
    by (simp add: removeExcludedPaths_present [OF ex] exampleCached_fields currentPaths_def
          ensureExclude_def)
qed

text \<open>
  Claim C6. When the policy's \<open>paths\<close> is not the single empty string and none of the
  given values equals an entry of the path list (two pattern-matchers being equal when
  source and flags are, a literal and a pattern-matcher never), \<open>addExcludedPaths\<close>
  followed by \<open>removeExcludedPaths\<close> with the same values leaves a newly allocated array
  holding the original entries, leaves the tag and method lists untouched, and gives every
  route the filtering result it had before.
\<close>

theorem add_then_remove_paths_round_trip:
  assumes "\<forall>v \<in> set ps. \<forall>p \<in> set (excludedPaths (pathArrays s) (currentExclude s)).
             \<not> samePath p v"
    and "excludedPathsField (currentExclude s) \<noteq> Some (Single (PathString []))"
  shows "excludedPathsField (currentExclude (removeExcludedPaths ps (addExcludedPaths ps s)))
           = Some (Multiple (Suc (nextAddr s)))
       \<and> pathArrays (removeExcludedPaths ps (addExcludedPaths ps s)) (Suc (nextAddr s))
           = (case excludedPathsField (currentExclude s) of
                None \<Rightarrow> []
              | Some (Single v) \<Rightarrow> [v]
              | Some (Multiple a) \<Rightarrow> pathArrays s a)
       \<and> excludedTagsRef (currentExclude (removeExcludedPaths ps (addExcludedPaths ps s)))
           = excludedTagsRef (currentExclude s)
       \<and> excludedMethodsRef (currentExclude (removeExcludedPaths ps (addExcludedPaths ps s)))
           = excludedMethodsRef (currentExclude s)
       \<and> stringArrays (removeExcludedPaths ps (addExcludedPaths ps s)) = stringArrays s
       \<and> excludedPaths (pathArrays (removeExcludedPaths ps (addExcludedPaths ps s)))
            (currentExclude (removeExcludedPaths ps (addExcludedPaths ps s)))
           = excludedPaths (pathArrays s) (currentExclude s)
       \<and> (\<forall>r. routeFilter ext
              (stringArrays (removeExcludedPaths ps (addExcludedPaths ps s)))
              (pathArrays (removeExcludedPaths ps (addExcludedPaths ps s)))
              (currentExclude (removeExcludedPaths ps (addExcludedPaths ps s))) r
            = routeFilter ext (stringArrays s) (pathArrays s) (currentExclude s) r)"
proof -
  let ?s2 = "removeExcludedPaths ps (addExcludedPaths ps s)"
  note refs = add_then_remove_refs [of ps s]
  have view: "excludedPaths (pathArrays t) (currentExclude t) = pathList t"
    if "excludedPathsField (currentExclude t) \<noteq> Some (Single (PathString []))" for t
    using that
    by (auto simp: excludedPaths_def currentPaths_def ensureExclude_def emptyExclude_def
          excludedPathsField_def truthy_iff split: option.splits pathsField.splits)
  have before: "excludedPaths (pathArrays s) (currentExclude s) = pathList s"
    by (rule view [OF assms(2)])
  have after: "excludedPaths (pathArrays ?s2) (currentExclude ?s2) = pathList ?s2"
    by (rule view) (simp add: refs)
  have lists: "pathList ?s2 = pathList s"
    using assms(1) by (intro add_then_remove_lists(1)) (simp add: before)
  have paths: "excludedPaths (pathArrays ?s2) (currentExclude ?s2)
      = excludedPaths (pathArrays s) (currentExclude s)"
    by (simp only: before after lists)
  have array: "pathArrays ?s2 (Suc (nextAddr s))
      = (case excludedPathsField (currentExclude s) of
           None \<Rightarrow> []
         | Some (Single v) \<Rightarrow> [v]
         | Some (Multiple a) \<Rightarrow> pathArrays s a)"
    using paths by (simp add: excludedPaths_cases refs)
  have tagsSame: "excludedTags (stringArrays ?s2) (currentExclude ?s2)
      = excludedTags (stringArrays s) (currentExclude s)"
  proof -
    have "tagList ?s2 = tagList s" by (simp add: refs stringsOr_def split: option.splits)
    then show ?thesis
      using excludedTags_tagList [of ?s2] excludedTags_tagList [of s] by simp
  qed
  have methodsSame: "excludedMethods (stringArrays ?s2) (currentExclude ?s2)
      = excludedMethods (stringArrays s) (currentExclude s)"
  proof -
    have "methodList ?s2 = methodList s"
      by (simp add: refs stringsOr_def split: option.splits)
    then show ?thesis
      using excludedMethods_methodList [of ?s2] excludedMethods_methodList [of s] by simp
  qed
  have flt: "\<forall>r. routeFilter ext (stringArrays ?s2) (pathArrays ?s2) (currentExclude ?s2) r
            = routeFilter ext (stringArrays s) (pathArrays s) (currentExclude s) r"
    by (simp only: routeFilter_def paths tagsSame methodsSame) simp
  show ?thesis
    using refs array paths flt by (intro conjI)
qed

text \<open>
  A list holding \<open>/^\/tmp/i\<close> and \<open>'/internal'\<close>; the values \<open>/^\/tmp/\<close> (other flags)
  and \<open>'/health'\<close> are added and removed again. \<open>/internal\<close> is still rejected and
  \<open>/health\<close> still accepted.
\<close>

theorem add_then_remove_paths_round_trip_witness:
  "pathArrays (removeExcludedPaths [PathRegExp ''^/tmp'' [], PathString ''/health'']
       (addExcludedPaths [PathRegExp ''^/tmp'' [], PathString ''/health''] regExpState)) 2
     = [PathRegExp ''^/tmp'' ''i'', PathString ''/internal'']
   \<and> \<not> routeFilter exampleExternal
        (stringArrays (removeExcludedPaths [PathRegExp ''^/tmp'' [], PathString ''/health'']
           (addExcludedPaths [PathRegExp ''^/tmp'' [], PathString ''/health''] regExpState)))
        (pathArrays (removeExcludedPaths [PathRegExp ''^/tmp'' [], PathString ''/health'']
           (addExcludedPaths [PathRegExp ''^/tmp'' [], PathString ''/health''] regExpState)))
        (currentExclude (removeExcludedPaths [PathRegExp ''^/tmp'' [], PathString ''/health'']
           (addExcludedPaths [PathRegExp ''^/tmp'' [], PathString ''/health''] regExpState)))
        (exampleRoute ''GET'' ''/internal'' [])
   \<and> routeFilter exampleExternal
        (stringArrays (removeExcludedPaths [PathRegExp ''^/tmp'' [], PathString ''/health'']
           (addExcludedPaths [PathRegExp ''^/tmp'' [], PathString ''/health''] regExpState)))
        (pathArrays (removeExcludedPaths [PathRegExp ''^/tmp'' [], PathString ''/health'']
           (addExcludedPaths [PathRegExp ''^/tmp'' [], PathString ''/health''] regExpState)))
        (currentExclude (removeExcludedPaths [PathRegExp ''^/tmp'' [], PathString ''/health'']
           (addExcludedPaths [PathRegExp ''^/tmp'' [], PathString ''/health''] regExpState)))
        (exampleRoute ''GET'' ''/health'' [])"
proof -
  have f: "excludedPathsField (currentExclude regExpState) = Some (Multiple 0)"
    "nextAddr regExpState = 1"
    "pathArrays regExpState 0 = [PathRegExp ''^/tmp'' ''i'', PathString ''/internal'']"
    by (simp_all add: regExpState_def initialState_def excludedPathsField_def)
  have l: "excludedPaths (pathArrays regExpState) (currentExclude regExpState)
      = [PathRegExp ''^/tmp'' ''i'', PathString ''/internal'']"
    by (simp add: excludedPaths_cases f)
  have h1: "\<forall>v \<in> set [PathRegExp ''^/tmp'' [], PathString ''/health''].
             \<forall>p \<in> set (excludedPaths (pathArrays regExpState) (currentExclude regExpState)).
               \<not> samePath p v"
    by (simp add: l)
  have h2: "excludedPathsField (currentExclude regExpState) \<noteq> Some (Single (PathString []))"
    by (simp add: f)
  have b: "\<not> routeFilter exampleExternal (stringArrays regExpState) (pathArrays regExpState)
         (currentExclude regExpState) (exampleRoute ''GET'' ''/internal'' [])"
    "routeFilter exampleExternal (stringArrays regExpState) (pathArrays regExpState)
         (currentExclude regExpState) (exampleRoute ''GET'' ''/health'' [])"
    by (simp_all add: routeFilter_def excludedPaths_def excludedTags_def excludedMethods_def
          regExpState_def initialState_def exampleExternal_def exampleRoute_def)
  let ?s2 = "removeExcludedPaths [PathRegExp ''^/tmp'' [], PathString ''/health'']
       (addExcludedPaths [PathRegExp ''^/tmp'' [], PathString ''/health''] regExpState)"
  note t = add_then_remove_paths_round_trip [OF h1 h2, of exampleExternal]
  have arr: "pathArrays ?s2 (Suc (nextAddr regExpState))
      = (case excludedPathsField (currentExclude regExpState) of
           None \<Rightarrow> []
         | Some (Single v) \<Rightarrow> [v]
         | Some (Multiple a) \<Rightarrow> pathArrays regExpState a)"
    using t by blast
  have flt: "routeFilter exampleExternal (stringArrays ?s2) (pathArrays ?s2)
        (currentExclude ?s2) r
      = routeFilter exampleExternal (stringArrays regExpState) (pathArrays regExpState)
          (currentExclude regExpState) r" for r
    using t by blast
  have two: "Suc (nextAddr regExpState) = 2"
    by (simp add: f)
  have direct: "pathArrays ?s2 2 = [PathRegExp ''^/tmp'' ''i'', PathString ''/internal'']"
    by (simp add: removeExcludedPaths_def addExcludedPaths_def Let_def invalidateCache_def
          currentPaths_def ensureExclude_def regExpState_def initialState_def)
  have p2: "pathArrays ?s2 2 = [PathRegExp ''^/tmp'' ''i'', PathString ''/internal'']"
    using arr direct unfolding two by (simp add: f)
  have n1: "\<not> routeFilter exampleExternal (stringArrays ?s2) (pathArrays ?s2)
        (currentExclude ?s2) (exampleRoute ''GET'' ''/internal'' [])"
    unfolding flt by (rule b(1))
  have n2: "routeFilter exampleExternal (stringArrays ?s2) (pathArrays ?s2)
        (currentExclude ?s2) (exampleRoute ''GET'' ''/health'' [])"
    unfolding flt by (rule b(2))
  show ?thesis
    using p2 n1 n2 by (intro conjI)
qed

text \<open>
  Adding \<open>'/internal'\<close> to the list \<open>['/internal']\<close> and removing it again empties the
  list: the route \<open>/internal\<close>, excluded before, is accepted afterwards. And with
  \<open>paths: ''\<close>, adding and removing \<open>'/x'\<close> loses the empty string: the route with the
  empty path, excluded before, is accepted afterwards.
\<close>

theorem add_then_remove_existing_path_counterexample:
  "excludedPaths (pathArrays exampleState) (currentExclude exampleState)
     = [PathString ''/internal'']
   \<and> excludedPaths
        (pathArrays (removeExcludedPaths [PathString ''/internal'']
           (addExcludedPaths [PathString ''/internal''] exampleState)))
        (currentExclude (removeExcludedPaths [PathString ''/internal'']
           (addExcludedPaths [PathString ''/internal''] exampleState)))
     = []
   \<and> \<not> routeFilter exampleExternal (stringArrays exampleState) (pathArrays exampleState)
         (currentExclude exampleState) (exampleRoute ''GET'' ''/internal'' [])
   \<and> routeFilter exampleExternal
        (stringArrays (removeExcludedPaths [PathString ''/internal'']
           (addExcludedPaths [PathString ''/internal''] exampleState)))
        (pathArrays (removeExcludedPaths [PathString ''/internal'']
           (addExcludedPaths [PathString ''/internal''] exampleState)))
        (currentExclude (removeExcludedPaths [PathString ''/internal'']
           (addExcludedPaths [PathString ''/internal''] exampleState)))
        (exampleRoute ''GET'' ''/internal'' [])
   \<and> excludedPaths (pathArrays (scalarState (PathString [])))
        (currentExclude (scalarState (PathString [])))
     = [PathString []]
   \<and> excludedPaths
        (pathArrays (removeExcludedPaths [PathString ''/x'']
           (addExcludedPaths [PathString ''/x''] (scalarState (PathString [])))))
        (currentExclude (removeExcludedPaths [PathString ''/x'']
           (addExcludedPaths [PathString ''/x''] (scalarState (PathString [])))))
     = []
   \<and> \<not> routeFilter exampleExternal (stringArrays (scalarState (PathString [])))
         (pathArrays (scalarState (PathString []))) (currentExclude (scalarState (PathString [])))
         (exampleRoute ''GET'' [] [])
   \<and> routeFilter exampleExternal
        (stringArrays (removeExcludedPaths [PathString ''/x'']
           (addExcludedPaths [PathString ''/x''] (scalarState (PathString [])))))
        (pathArrays (removeExcludedPaths [PathString ''/x'']
           (addExcludedPaths [PathString ''/x''] (scalarState (PathString [])))))
        (currentExclude (removeExcludedPaths [PathString ''/x'']
           (addExcludedPaths [PathString ''/x''] (scalarState (PathString [])))))
        (exampleRoute ''GET'' [] [])"
proof -
  have a: "removeExcludedPaths [PathString ''/internal'']
        (addExcludedPaths [PathString ''/internal''] exampleState)
      = exampleState\<lparr>pathArrays := (pathArrays exampleState)
                 (2 := [PathString ''/internal'', PathString ''/internal''], 3 := []),
               nextAddr := 4,
               currentExclude := Some \<lparr>paths = Some (Multiple 3), tags = Some 1, methods = None\<rparr>\<rparr>"
    by (simp add: removeExcludedPaths_def addExcludedPaths_def Let_def invalidateCache_def
          exampleState_def initialState_def currentPaths_def ensureExclude_def)
  have b: "removeExcludedPaths [PathString ''/x'']
        (addExcludedPaths [PathString ''/x''] (scalarState (PathString [])))
      = (scalarState (PathString []))\<lparr>pathArrays := (pathArrays (scalarState (PathString [])))
                 (0 := [PathString ''/x''], 1 := []),
               nextAddr := 2,
               currentExclude := Some \<lparr>paths = Some (Multiple 1), tags = None, methods = None\<rparr>\<rparr>"
    by (simp add: removeExcludedPaths_def addExcludedPaths_def Let_def invalidateCache_def
          scalarState_def initialState_def currentPaths_def ensureExclude_def)
  show ?thesis
    unfolding a b
    by (simp add: routeFilter_def excludedPaths_def excludedTags_def excludedMethods_def
          exampleState_def scalarState_def initialState_def exampleExternal_def exampleRoute_def)
qed

text \<open>
  Claim C4. The stored policy is a shallow copy. \<open>setExclusion\<close> stores a record with the
  field values of its argument and allocates nothing, so the stored \<open>paths\<close>, \<open>tags\<close> and
  \<open>methods\<close> arrays are the caller's arrays: pushing to one of them changes the list the
  store filters by, pushing to any other array does not. \<open>getExclusion\<close> returns a record
  with the store's field values, so the arrays it gives out are again the store's own.
  Such a push does not invalidate the cache. (The records themselves are separate
  objects, which the model expresses by passing them as values.)
\<close>

theorem exclusion_copies_are_shallow:
  "getExclusion (setExclusion ne s) = ne
   \<and> stringArrays (setExclusion ne s) = stringArrays s
   \<and> pathArrays (setExclusion ne s) = pathArrays s
   \<and> (\<forall>cfg a x. paths cfg = Some (Multiple a) \<longrightarrow>
         pathList (hostPushPath a x (setExclusion (Some cfg) s))
           = pathList (setExclusion (Some cfg) s) @ [x])
   \<and> (\<forall>cfg a x. paths cfg \<noteq> Some (Multiple a) \<longrightarrow>
         pathList (hostPushPath a x (setExclusion (Some cfg) s))
           = pathList (setExclusion (Some cfg) s))
   \<and> (\<forall>cfg a x. tags cfg = Some a \<longrightarrow>
         tagList (hostPushString a x (setExclusion (Some cfg) s))
           = tagList (setExclusion (Some cfg) s) @ [x])
   \<and> (\<forall>cfg a x. tags cfg \<noteq> Some a \<longrightarrow>
         tagList (hostPushString a x (setExclusion (Some cfg) s))
           = tagList (setExclusion (Some cfg) s))
   \<and> (\<forall>cfg a x. methods cfg = Some a \<longrightarrow>
         methodList (hostPushString a x (setExclusion (Some cfg) s))
           = methodList (setExclusion (Some cfg) s) @ [x])
   \<and> (\<forall>cfg a x. methods cfg \<noteq> Some a \<longrightarrow>
         methodList (hostPushString a x (setExclusion (Some cfg) s))
           = methodList (setExclusion (Some cfg) s))
   \<and> (\<forall>got a x. getExclusion s = Some got \<and> paths got = Some (Multiple a) \<longrightarrow>
         pathList (hostPushPath a x s) = pathList s @ [x])
   \<and> (\<forall>got a x. getExclusion s = Some got \<and> tags got = Some a \<longrightarrow>
         tagList (hostPushString a x s) = tagList s @ [x])
   \<and> (\<forall>got a x. getExclusion s = Some got \<and> methods got = Some a \<longrightarrow>
         methodList (hostPushString a x s) = methodList s @ [x])
   \<and> (\<forall>a x. cachedSchema (hostPushPath a x s) = cachedSchema s
         \<and> totalRoutes (hostPushPath a x s) = totalRoutes s)
   \<and> (\<forall>a x. cachedSchema (hostPushString a x s) = cachedSchema s
         \<and> totalRoutes (hostPushString a x s) = totalRoutes s)"
proof -
  have set: "getExclusion (setExclusion ne s) = ne"
    "stringArrays (setExclusion ne s) = stringArrays s"
    "pathArrays (setExclusion ne s) = pathArrays s"
    by (simp_all add: getExclusion_def setExclusion_fields)
  have sp: "\<forall>cfg a x. paths cfg = Some (Multiple a) \<longrightarrow>
         pathList (hostPushPath a x (setExclusion (Some cfg) s))
           = pathList (setExclusion (Some cfg) s) @ [x]"
    "\<forall>cfg a x. paths cfg \<noteq> Some (Multiple a) \<longrightarrow>
         pathList (hostPushPath a x (setExclusion (Some cfg) s))
           = pathList (setExclusion (Some cfg) s)"
    by (simp_all add: pathList_hostPushPath) (simp_all add: setExclusion_fields excludedPathsField_def)
  have st: "\<forall>cfg a x. tags cfg = Some a \<longrightarrow>
         tagList (hostPushString a x (setExclusion (Some cfg) s))
           = tagList (setExclusion (Some cfg) s) @ [x]"
    "\<forall>cfg a x. tags cfg \<noteq> Some a \<longrightarrow>
         tagList (hostPushString a x (setExclusion (Some cfg) s))
           = tagList (setExclusion (Some cfg) s)"
    by (simp_all add: tagList_hostPushString) (simp_all add: setExclusion_fields excludedTagsRef_def)
  have sm: "\<forall>cfg a x. methods cfg = Some a \<longrightarrow>
         methodList (hostPushString a x (setExclusion (Some cfg) s))
           = methodList (setExclusion (Some cfg) s) @ [x]"
    "\<forall>cfg a x. methods cfg \<noteq> Some a \<longrightarrow>
         methodList (hostPushString a x (setExclusion (Some cfg) s))
           = methodList (setExclusion (Some cfg) s)"
    by (simp_all add: methodList_hostPushString)
       (simp_all add: setExclusion_fields excludedMethodsRef_def)
  have get: "\<forall>got a x. getExclusion s = Some got \<and> paths got = Some (Multiple a) \<longrightarrow>
         pathList (hostPushPath a x s) = pathList s @ [x]"
    "\<forall>got a x. getExclusion s = Some got \<and> tags got = Some a \<longrightarrow>
         tagList (hostPushString a x s) = tagList s @ [x]"
    "\<forall>got a x. getExclusion s = Some got \<and> methods got = Some a \<longrightarrow>
         methodList (hostPushString a x s) = methodList s @ [x]"
    by (simp_all add: getExclusion_def pathList_hostPushPath tagList_hostPushString
          methodList_hostPushString)
       (simp_all add: excludedPathsField_def excludedTagsRef_def excludedMethodsRef_def)
  have cache: "\<forall>a x. cachedSchema (hostPushPath a x s) = cachedSchema s
         \<and> totalRoutes (hostPushPath a x s) = totalRoutes s"
    "\<forall>a x. cachedSchema (hostPushString a x s) = cachedSchema s
         \<and> totalRoutes (hostPushString a x s) = totalRoutes s"
    by (simp_all add: hostPush_fields)
  show ?thesis
    using set sp st sm get cache by blast
qed

text \<open>
  The caller's object of the example, with its arrays at addresses 0 and 1; address 7 is unrelated.
\<close>

theorem exclusion_copies_are_shallow_witness:
  "getExclusion (setExclusion (Some exampleExclude) exampleState) = Some exampleExclude
   \<and> pathList (hostPushPath 0 (PathString ''/health'')
        (setExclusion (Some exampleExclude) exampleState))
       = pathList (setExclusion (Some exampleExclude) exampleState) @ [PathString ''/health'']
   \<and> pathList (hostPushPath 7 (PathString ''/health'')
        (setExclusion (Some exampleExclude) exampleState))
       = pathList (setExclusion (Some exampleExclude) exampleState)
   \<and> tagList (hostPushString 1 ''users'' exampleState) = tagList exampleState @ [''users'']"
proof -
  have a: "paths exampleExclude = Some (Multiple 0)" "paths exampleExclude \<noteq> Some (Multiple 7)"
    "tags exampleExclude = Some 1"
    by (simp_all add: exampleExclude_def)
  have g: "getExclusion exampleState = Some exampleExclude"
    by (simp add: getExclusion_def exampleState_def initialState_def exampleExclude_def)
  show ?thesis
    using exclusion_copies_are_shallow [of "Some exampleExclude" exampleState] a g
    by simp
qed

text \<open>
  After \<open>setExclusion(cfg)\<close> the caller runs \<open>cfg.paths.push('/health')\<close>: the stored path
  list grows and the route \<open>/health\<close>, accepted before, is rejected. After
  \<open>getExclusion()\<close> the caller pushes \<open>'users'\<close> to the returned \<open>tags\<close>: the stored tag
  list grows.
\<close>

theorem shared_array_counterexample:
  "pathList (setExclusion (Some exampleExclude) exampleState) = [PathString ''/internal'']
   \<and> pathList (hostPushPath 0 (PathString ''/health'')
        (setExclusion (Some exampleExclude) exampleState))
       = [PathString ''/internal'', PathString ''/health'']
   \<and> routeFilter exampleExternal
        (stringArrays (setExclusion (Some exampleExclude) exampleState))
        (pathArrays (setExclusion (Some exampleExclude) exampleState))
        (currentExclude (setExclusion (Some exampleExclude) exampleState))
        (exampleRoute ''GET'' ''/health'' [])
   \<and> \<not> routeFilter exampleExternal
        (stringArrays (hostPushPath 0 (PathString ''/health'')
           (setExclusion (Some exampleExclude) exampleState)))
        (pathArrays (hostPushPath 0 (PathString ''/health'')
           (setExclusion (Some exampleExclude) exampleState)))
        (currentExclude (hostPushPath 0 (PathString ''/health'')
           (setExclusion (Some exampleExclude) exampleState)))
        (exampleRoute ''GET'' ''/health'' [])
   \<and> getExclusion exampleState = Some exampleExclude
   \<and> tagList exampleState = [''admin'']
   \<and> tagList (hostPushString 1 ''users'' exampleState) = [''admin'', ''users'']"
proof -
  let ?s1 = "setExclusion (Some exampleExclude) exampleState"
  let ?s2 = "hostPushPath 0 (PathString ''/health'') ?s1"
  have l1: "pathList ?s1 = [PathString ''/internal'']" "tagList ?s1 = [''admin'']"
    "methodList ?s1 = []"
    by (simp_all add: setExclusion_def invalidateCache_def exampleExclude_def exampleState_def
          initialState_def currentPaths_def ensureExclude_def excludedTagsRef_def
          excludedMethodsRef_def stringsOr_def)
  have l2: "pathList ?s2 = [PathString ''/internal'', PathString ''/health'']"
    "tagList ?s2 = [''admin'']" "methodList ?s2 = []"
    by (simp_all add: setExclusion_def invalidateCache_def hostPushPath_def exampleExclude_def
          exampleState_def initialState_def currentPaths_def ensureExclude_def
          excludedTagsRef_def excludedMethodsRef_def stringsOr_def)
  have p: "path (exampleRoute ''GET'' ''/health'' []) \<noteq> []"
    by (simp add: exampleRoute_def)
  have before: "routeFilter exampleExternal (stringArrays ?s1) (pathArrays ?s1)
      (currentExclude ?s1) (exampleRoute ''GET'' ''/health'' [])"
    unfolding routeFilter_lists [OF p] l1
    by (simp add: exampleRoute_def exampleExternal_def)
  have after: "\<not> routeFilter exampleExternal (stringArrays ?s2) (pathArrays ?s2)
      (currentExclude ?s2) (exampleRoute ''GET'' ''/health'' [])"
    unfolding routeFilter_lists [OF p] l2
    by (simp add: exampleRoute_def exampleExternal_def)
  have g: "getExclusion exampleState = Some exampleExclude"
    "tagList exampleState = [''admin'']"
    "tagList (hostPushString 1 ''users'' exampleState) = [''admin'', ''users'']"
    by (simp_all add: hostPushString_def exampleExclude_def exampleState_def initialState_def
          getExclusion_def excludedTagsRef_def stringsOr_def)
  show ?thesis using l1(1) l2(1) before after g by blast
qed

section \<open>Document assembler: properties\<close>



section \<open>Cache controller: properties\<close>

text \<open>
  Claim C2. After a read of the spec endpoint that returned a document, a second read
  with the same number of routes and no call in between returns that same document and
  leaves the state as it is, whatever the converter would produce: nothing is rebuilt.
  A read immediately after \<open>setExclusion\<close>, after any of the three add operations, after
  a removal operation on a dimension whose list is present, or with a route count other
  than the stored one calls the converter with the policy and arrays of that moment: if
  the converter returns, the read returns the document assembled from its output, and
  caches it with the new route count; if the converter throws, the read fails. A removal
  operation on a dimension without a list changes nothing, so the read after it behaves as
  the read before it would have.
\<close>

theorem cached_reads_and_rebuilds:
  "(\<forall>d s'. openAPISchema conv doc routes s = (Inr d, s') \<and> length routes' = length routes
       \<longrightarrow> (\<forall>conv' doc'. openAPISchema conv' doc' routes' s' = (Inr d, s')))
   \<and> (\<forall>s1 \<in> set ([setExclusion ne s, addExcludedPaths ps s, addExcludedTags ts s,
                    addExcludedMethods ms s]
                 @ (if pathsPresent (excludedPathsField (currentExclude s))
                    then [removeExcludedPaths ps s] else [])
                 @ (if excludedTagsRef (currentExclude s) \<noteq> None
                    then [removeExcludedTags ts s] else [])
                 @ (if excludedMethodsRef (currentExclude s) \<noteq> None
                    then [removeExcludedMethods ms s] else [])
                 @ (if totalRoutes s \<noteq> length routes then [s] else [])).
        (\<forall>out. conv (stringArrays s1) (pathArrays s1) routes (currentExclude s1) = Inr out \<longrightarrow>
            openAPISchema conv doc routes s1
              = (Inr (fst (toFullSchema doc out s1)),
                 s1\<lparr>totalRoutes := length routes,
                    cachedSchema := Some (fst (toFullSchema doc out s1))\<rparr>))
        \<and> (\<forall>e. conv (stringArrays s1) (pathArrays s1) routes (currentExclude s1) = Inl e \<longrightarrow>
            openAPISchema conv doc routes s1 = (Inl e, s1\<lparr>totalRoutes := length routes\<rparr>)))
   \<and> (\<not> pathsPresent (excludedPathsField (currentExclude s)) \<longrightarrow>
        openAPISchema conv doc routes (removeExcludedPaths ps s)
          = openAPISchema conv doc routes s)
   \<and> (excludedTagsRef (currentExclude s) = None \<longrightarrow>
        openAPISchema conv doc routes (removeExcludedTags ts s)
          = openAPISchema conv doc routes s)
   \<and> (excludedMethodsRef (currentExclude s) = None \<longrightarrow>
        openAPISchema conv doc routes (removeExcludedMethods ms s)
          = openAPISchema conv doc routes s)"
proof -
  have hit: "\<forall>d s'. openAPISchema conv doc routes s = (Inr d, s') \<and> length routes' = length routes
       \<longrightarrow> (\<forall>conv' doc'. openAPISchema conv' doc' routes' s' = (Inr d, s'))"
  proof (intro allI impI)
    fix d s' conv' doc'
    assume a: "openAPISchema conv doc routes s = (Inr d, s') \<and> length routes' = length routes"
    then have "cachedSchema s' = Some d \<and> totalRoutes s' = length routes'"
      using openAPISchema_Inr_fresh by fastforce
    then show "openAPISchema conv' doc' routes' s' = (Inr d, s')"
      by (simp add: openAPISchema_hit)
  qed
  have stale: "cachedSchema s1 = None \<or> totalRoutes s1 \<noteq> length routes"
    if "s1 \<in> set ([setExclusion ne s, addExcludedPaths ps s, addExcludedTags ts s,
                    addExcludedMethods ms s]
                 @ (if pathsPresent (excludedPathsField (currentExclude s))
                    then [removeExcludedPaths ps s] else [])
                 @ (if excludedTagsRef (currentExclude s) \<noteq> None
                    then [removeExcludedTags ts s] else [])
                 @ (if excludedMethodsRef (currentExclude s) \<noteq> None
                    then [removeExcludedMethods ms s] else [])
                 @ (if totalRoutes s \<noteq> length routes then [s] else []))" for s1
    using that removeExcludedPaths_invalidates [of s ps] removeExcludedTags_invalidates [of s ts]
      removeExcludedMethods_invalidates [of s ms]
    by (auto simp: setExclusion_fields addExcludedPaths_fields addExcludedTags_fields
          addExcludedMethods_fields split: if_splits)
  have rebuilds: "\<forall>s1 \<in> set ([setExclusion ne s, addExcludedPaths ps s, addExcludedTags ts s,
                    addExcludedMethods ms s]
                 @ (if pathsPresent (excludedPathsField (currentExclude s))
                    then [removeExcludedPaths ps s] else [])
                 @ (if excludedTagsRef (currentExclude s) \<noteq> None
                    then [removeExcludedTags ts s] else [])
                 @ (if excludedMethodsRef (currentExclude s) \<noteq> None
                    then [removeExcludedMethods ms s] else [])
                 @ (if totalRoutes s \<noteq> length routes then [s] else [])).
        (\<forall>out. conv (stringArrays s1) (pathArrays s1) routes (currentExclude s1) = Inr out \<longrightarrow>
            openAPISchema conv doc routes s1
              = (Inr (fst (toFullSchema doc out s1)),
                 s1\<lparr>totalRoutes := length routes,
                    cachedSchema := Some (fst (toFullSchema doc out s1))\<rparr>))
        \<and> (\<forall>e. conv (stringArrays s1) (pathArrays s1) routes (currentExclude s1) = Inl e \<longrightarrow>
            openAPISchema conv doc routes s1 = (Inl e, s1\<lparr>totalRoutes := length routes\<rparr>))"
  proof
    fix s1
    assume m: "s1 \<in> set ([setExclusion ne s, addExcludedPaths ps s, addExcludedTags ts s,
                    addExcludedMethods ms s]
                 @ (if pathsPresent (excludedPathsField (currentExclude s))
                    then [removeExcludedPaths ps s] else [])
                 @ (if excludedTagsRef (currentExclude s) \<noteq> None
                    then [removeExcludedTags ts s] else [])
                 @ (if excludedMethodsRef (currentExclude s) \<noteq> None
                    then [removeExcludedMethods ms s] else [])
                 @ (if totalRoutes s \<noteq> length routes then [s] else []))"
    have miss: "(if totalRoutes s1 = length routes then cachedSchema s1 else None) = None"
      using stale [OF m] by auto
    show "(\<forall>out. conv (stringArrays s1) (pathArrays s1) routes (currentExclude s1) = Inr out \<longrightarrow>
            openAPISchema conv doc routes s1
              = (Inr (fst (toFullSchema doc out s1)),
                 s1\<lparr>totalRoutes := length routes,
                    cachedSchema := Some (fst (toFullSchema doc out s1))\<rparr>))
        \<and> (\<forall>e. conv (stringArrays s1) (pathArrays s1) routes (currentExclude s1) = Inl e \<longrightarrow>
            openAPISchema conv doc routes s1 = (Inl e, s1\<lparr>totalRoutes := length routes\<rparr>))"
      by (simp add: openAPISchema_def miss rebuildSchema_def Let_def split_beta
            toFullSchema_totalRoutes toFullSchema_snd)
  qed
  have untouched: "\<not> pathsPresent (excludedPathsField (currentExclude s)) \<longrightarrow>
        openAPISchema conv doc routes (removeExcludedPaths ps s)
          = openAPISchema conv doc routes s"
    "excludedTagsRef (currentExclude s) = None \<longrightarrow>
        openAPISchema conv doc routes (removeExcludedTags ts s)
          = openAPISchema conv doc routes s"
    "excludedMethodsRef (currentExclude s) = None \<longrightarrow>
        openAPISchema conv doc routes (removeExcludedMethods ms s)
          = openAPISchema conv doc routes s"
    by (simp_all add: removeExcludedPaths_absent removeExcludedTags_absent
          removeExcludedMethods_absent)
  show ?thesis
    using hit rebuilds untouched by (intro conjI)
qed

text \<open>
  A first read builds and caches; the second read is given a converter that throws and
  still returns what the first returned. With the converter of the specification: after
  \<open>addExcludedPaths('/health')\<close> the document has \<open>/users\<close> and no longer \<open>/health\<close>;
  after \<open>removeExcludedPaths('/internal')\<close> it has \<open>/internal\<close>; with a sixth route
  registered it has that route. After \<open>addExcludedTags\<close> a converter that throws is
  reached.
\<close>

theorem cached_reads_and_rebuilds_witness:
  "openAPISchema failingConverter exampleDocumentation exampleRoutes
       (snd (openAPISchema fixedConverter exampleDocumentation exampleRoutes exampleState))
     = openAPISchema fixedConverter exampleDocumentation exampleRoutes exampleState
   \<and> presentIn exampleExternal
       (fst (openAPISchema (toOpenAPISchema exampleExternal) exampleDocumentation exampleRoutes
               (addExcludedPaths [PathString ''/health''] exampleCached)))
       (exampleRoute ''GET'' ''/users'' [''users''])
   \<and> \<not> presentIn exampleExternal
       (fst (openAPISchema (toOpenAPISchema exampleExternal) exampleDocumentation exampleRoutes
               (addExcludedPaths [PathString ''/health''] exampleCached)))
       (exampleRoute ''GET'' ''/health'' [])
   \<and> presentIn exampleExternal
       (fst (openAPISchema (toOpenAPISchema exampleExternal) exampleDocumentation exampleRoutes
               (removeExcludedPaths [PathString ''/internal''] exampleCached)))
       (exampleRoute ''GET'' ''/internal'' [])
   \<and> presentIn exampleExternal
       (fst (openAPISchema (toOpenAPISchema exampleExternal) exampleDocumentation sixRoutes
               exampleCached))
       (exampleRoute ''POST'' ''/upload'' [])
   \<and> fst (openAPISchema failingConverter exampleDocumentation exampleRoutes
         (addExcludedTags [''users''] exampleCached))
     = Inl (BuildError ''unsupported schema'')"
proof -
  let ?conv = "toOpenAPISchema exampleExternal"
  let ?first = "openAPISchema fixedConverter exampleDocumentation exampleRoutes exampleState"
  let ?added = "addExcludedPaths [PathString ''/health''] exampleCached"
  let ?removed = "removeExcludedPaths [PathString ''/internal''] exampleCached"
  have c: "pathsPresent (excludedPathsField (currentExclude exampleCached))"
    "totalRoutes exampleCached \<noteq> length sixRoutes"
    by (simp_all add: exampleCached_fields excludedPathsField_def length_exampleRoutes)
  note t1 = cached_reads_and_rebuilds
    [of fixedConverter exampleDocumentation exampleRoutes exampleState exampleRoutes]
  note t2 = cached_reads_and_rebuilds
    [of ?conv exampleDocumentation exampleRoutes exampleCached _ _ "[PathString ''/health'']"]
  note t3 = cached_reads_and_rebuilds
    [of ?conv exampleDocumentation exampleRoutes exampleCached _ _ "[PathString ''/internal'']"]
  note t4 = cached_reads_and_rebuilds
    [of ?conv exampleDocumentation sixRoutes exampleCached]
  note t5 = cached_reads_and_rebuilds
    [of failingConverter exampleDocumentation exampleRoutes exampleCached _ _ _ "[''users'']"]
  have hit: "openAPISchema failingConverter exampleDocumentation exampleRoutes (snd ?first)
      = ?first"
    using t1 example_first_read by simp
  have added: "presentIn exampleExternal
       (fst (openAPISchema ?conv exampleDocumentation exampleRoutes ?added)) r
     \<longleftrightarrow> (\<exists>r' \<in> set exampleRoutes.
            routeFilter exampleExternal (stringArrays ?added) (pathArrays ?added)
              (currentExclude ?added) r'
            \<and> pathItemKey exampleExternal (path r') = pathItemKey exampleExternal (path r)
            \<and> method r' = method r)"
    if "spread (doc_paths exampleDocumentation) (pathItemKey exampleExternal (path r)) = None"
    for r
  proof -
    obtain out where o: "?conv (stringArrays ?added) (pathArrays ?added) exampleRoutes
        (currentExclude ?added) = Inr out"
      using example_conversion_succeeds by blast
    have direct: "fst (openAPISchema ?conv exampleDocumentation exampleRoutes ?added)
        = Inr (fst (toFullSchema exampleDocumentation out ?added))"
    proof -
      have miss: "(if totalRoutes ?added = length exampleRoutes then cachedSchema ?added
                   else None) = None"
        by (simp add: addExcludedPaths_fields)
      show ?thesis
        by (simp add: openAPISchema_def miss rebuildSchema_def Let_def split_beta o
              toFullSchema_totalRoutes)
    qed
    have "openAPISchema ?conv exampleDocumentation exampleRoutes ?added
        = (Inr (fst (toFullSchema exampleDocumentation out ?added)),
           ?added\<lparr>totalRoutes := length exampleRoutes,
             cachedSchema := Some (fst (toFullSchema exampleDocumentation out ?added))\<rparr>)"
      using t2 o direct by simp
    then show ?thesis
      by (simp add: presentIn_def built_operations [OF o] that)
  qed
  have removed: "presentIn exampleExternal
       (fst (openAPISchema ?conv exampleDocumentation exampleRoutes ?removed)) r
     \<longleftrightarrow> (\<exists>r' \<in> set exampleRoutes.
            routeFilter exampleExternal (stringArrays ?removed) (pathArrays ?removed)
              (currentExclude ?removed) r'
            \<and> pathItemKey exampleExternal (path r') = pathItemKey exampleExternal (path r)
            \<and> method r' = method r)"
    if "spread (doc_paths exampleDocumentation) (pathItemKey exampleExternal (path r)) = None"
    for r
  proof -
    obtain out where o: "?conv (stringArrays ?removed) (pathArrays ?removed) exampleRoutes
        (currentExclude ?removed) = Inr out"
      using example_conversion_succeeds by blast
    have "openAPISchema ?conv exampleDocumentation exampleRoutes ?removed
        = (Inr (fst (toFullSchema exampleDocumentation out ?removed)),
           ?removed\<lparr>totalRoutes := length exampleRoutes,
             cachedSchema := Some (fst (toFullSchema exampleDocumentation out ?removed))\<rparr>)"
      using t3 o c(1) by simp
    then show ?thesis
      by (simp add: presentIn_def built_operations [OF o] that)
  qed
  have grown: "presentIn exampleExternal
       (fst (openAPISchema ?conv exampleDocumentation sixRoutes exampleCached)) r
     \<longleftrightarrow> (\<exists>r' \<in> set sixRoutes.
            routeFilter exampleExternal (stringArrays exampleCached) (pathArrays exampleCached)
              (currentExclude exampleCached) r'
            \<and> pathItemKey exampleExternal (path r') = pathItemKey exampleExternal (path r)
            \<and> method r' = method r)"
    if "spread (doc_paths exampleDocumentation) (pathItemKey exampleExternal (path r)) = None"
    for r
  proof -
    obtain out where o: "?conv (stringArrays exampleCached) (pathArrays exampleCached) sixRoutes
        (currentExclude exampleCached) = Inr out"
      using example_conversion_succeeds by blast
    have "openAPISchema ?conv exampleDocumentation sixRoutes exampleCached
        = (Inr (fst (toFullSchema exampleDocumentation out exampleCached)),
           exampleCached\<lparr>totalRoutes := length sixRoutes,
             cachedSchema := Some (fst (toFullSchema exampleDocumentation out exampleCached))\<rparr>)"
      using t4 o c(2) by simp
    then show ?thesis
      by (simp add: presentIn_def built_operations [OF o] that)
  qed
  have sa: "currentExclude ?added
      = Some \<lparr>paths = Some (Multiple 2), tags = Some 1, methods = None\<rparr>"
    "pathArrays ?added 2 = [PathString ''/internal'', PathString ''/health'']"
    "stringArrays ?added (Suc 0) = [''admin'']"
    by (simp_all add: addExcludedPaths_def Let_def invalidateCache_def exampleCached_def
          exampleState_def initialState_def currentPaths_def ensureExclude_def)
  have sr: "currentExclude ?removed
      = Some \<lparr>paths = Some (Multiple 2), tags = Some 1, methods = None\<rparr>"
    "pathArrays ?removed 2 = []"
    "stringArrays ?removed (Suc 0) = [''admin'']"
    by (simp_all add: removeExcludedPaths_def Let_def invalidateCache_def exampleCached_def
          exampleState_def initialState_def)
  have sc: "currentExclude exampleCached
      = Some \<lparr>paths = Some (Multiple 0), tags = Some 1, methods = None\<rparr>"
    "pathArrays exampleCached 0 = [PathString ''/internal'']"
    "stringArrays exampleCached (Suc 0) = [''admin'']"
    by (simp_all add: exampleCached_def exampleState_def initialState_def)
  have w1: "presentIn exampleExternal
       (fst (openAPISchema ?conv exampleDocumentation exampleRoutes ?added))
       (exampleRoute ''GET'' ''/users'' [''users''])"
    unfolding added [OF example_static_paths, of "''/users''", simplified]
    by (simp add: exampleRoutes_def routeFilter_def excludedPaths_def excludedTags_def
          excludedMethods_def sa exampleExternal_def exampleRoute_def)
  have w2: "\<not> presentIn exampleExternal
       (fst (openAPISchema ?conv exampleDocumentation exampleRoutes ?added))
       (exampleRoute ''GET'' ''/health'' [])"
    unfolding added [OF example_static_paths, of "''/health''", simplified]
    by (simp add: exampleRoutes_def routeFilter_def excludedPaths_def excludedTags_def
          excludedMethods_def sa exampleExternal_def exampleRoute_def)
  have w3: "presentIn exampleExternal
       (fst (openAPISchema ?conv exampleDocumentation exampleRoutes ?removed))
       (exampleRoute ''GET'' ''/internal'' [])"
    unfolding removed [OF example_static_paths, of "''/internal''", simplified]
    by (simp add: exampleRoutes_def routeFilter_def excludedPaths_def excludedTags_def
          excludedMethods_def sr exampleExternal_def exampleRoute_def)
  have w4: "presentIn exampleExternal
       (fst (openAPISchema ?conv exampleDocumentation sixRoutes exampleCached))
       (exampleRoute ''POST'' ''/upload'' [])"
    unfolding grown [OF example_static_paths, of "''/upload''", simplified]
    by (simp add: sixRoutes_def exampleRoutes_def routeFilter_def excludedPaths_def
          excludedTags_def excludedMethods_def sc exampleExternal_def exampleRoute_def)
  have w5: "fst (openAPISchema failingConverter exampleDocumentation exampleRoutes
         (addExcludedTags [''users''] exampleCached)) = Inl (BuildError ''unsupported schema'')"
    using t5 by (simp add: failingConverter_def)
  show ?thesis
    using hit w1 w2 w3 w4 w5 by (intro conjI)
qed

text \<open>
  A first read caches a document. The example policy has no method list: after
  \<open>removeExcludedMethods('GET')\<close> the read returns the cached document and leaves the
  state as it is, although the converter it was given throws on this very input.
\<close>

theorem read_after_removal_without_list_counterexample:
  "openAPISchema fixedConverter exampleDocumentation exampleRoutes exampleState
     = (Inr exampleDocument, exampleCached)
   \<and> openAPISchema failingConverter exampleDocumentation exampleRoutes
       (removeExcludedMethods [''GET''] exampleCached)
     = (Inr exampleDocument, exampleCached)
   \<and> failingConverter
       (stringArrays (removeExcludedMethods [''GET''] exampleCached))
       (pathArrays (removeExcludedMethods [''GET''] exampleCached))
       exampleRoutes
       (currentExclude (removeExcludedMethods [''GET''] exampleCached))
     = Inl (BuildError ''unsupported schema'')"
proof -
  have m: "removeExcludedMethods [''GET''] exampleCached = exampleCached"
    by (simp add: removeExcludedMethods_def exampleCached_fields)
  show ?thesis
    unfolding m using example_first_read
    by (simp add: openAPISchema_def failingConverter_def exampleCached_fields
          length_exampleRoutes)
qed

text \<open>
  Claim C3. A first read caches a document for five routes. A sixth route is registered
  and the converter throws on the next read: that read leaves the Exclusion Store as it
  was, but it leaves the counter at six and the old document in place. The read after it
  therefore returns the old document, whatever the converter would do: the failed build
  has not left the cache stale, and no rebuild is attempted.
\<close>

theorem failed_rebuild_then_stale_document:
  "openAPISchema fixedConverter exampleDocumentation exampleRoutes exampleState
     = (Inr exampleDocument, exampleCached)
   \<and> openAPISchema failingConverter exampleDocumentation sixRoutes exampleCached
     = (Inl (BuildError ''unsupported schema''), exampleCached\<lparr>totalRoutes := 6\<rparr>)
   \<and> currentExclude (exampleCached\<lparr>totalRoutes := 6\<rparr>) = currentExclude exampleCached
   \<and> cachedSchema (exampleCached\<lparr>totalRoutes := 6\<rparr>) = Some exampleDocument
   \<and> openAPISchema conv exampleDocumentation sixRoutes (exampleCached\<lparr>totalRoutes := 6\<rparr>)
     = (Inr exampleDocument, exampleCached\<lparr>totalRoutes := 6\<rparr>)"
  using example_first_read
  by (simp add: openAPISchema_def rebuildSchema_def failingConverter_def exampleCached_fields
        length_exampleRoutes)

section \<open>Route filter: properties\<close>




end
